theory Spec2Isabelle
  imports Complex_Main
begin

section \<open>TDB2TT: barycentric dynamical time to terrestrial time\<close>

text \<open>
  The source is the MEX file \<^verbatim>\<open>Coordinate Systems/Time/TDB2TT.c\<close>: the gateway
  \<^verbatim>\<open>mexFunction\<close> and its helper \<^verbatim>\<open>getDeltaTFromEOP\<close>. A C \<^verbatim>\<open>double\<close> is modelled
  as a \<^typ>\<open>real\<close>, so arithmetic is exact: rounding, infinities and NaN are outside the
  model. A C \<^verbatim>\<open>int\<close> status is an \<^typ>\<open>int\<close>.
\<close>

subsection \<open>MATLAB arrays, the state of a call, and its outcome\<close>

text \<open>
  An \<^verbatim>\<open>mxArray\<close>: its dimensions (\<^verbatim>\<open>mxGetM\<close>, \<^verbatim>\<open>mxGetN\<close>), whether it is a real array of
  class double, and the elements \<^verbatim>\<open>mxGetData\<close> points to, in column-major order.
\<close>

record mxArray =
  mxM :: nat
  mxN :: nat
  mxRealDouble :: bool
  mxData :: "real list"

definition mxIsEmpty :: "mxArray \<Rightarrow> bool" where
  "mxIsEmpty a = (mxM a = 0 \<or> mxN a = 0)"

text \<open>
  The entries of \<^verbatim>\<open>prhs\<close> are pointers into MATLAB's workspace; two of them may point to
  the same array. The workspace is a store from addresses to arrays.
\<close>

type_synonym addr = nat

text \<open>
  What a call does besides computing, in the order it happens: it reads the value of an
  input array, it prints a warning (\<^verbatim>\<open>mexWarnMsgTxt\<close>), it calls an external routine
  with given arguments.
\<close>

datatype event =
    ReadInput nat
  | Warning string
  | Call string "real list"

record mexState =
  store :: "addr \<Rightarrow> mxArray"
  plhs :: "nat \<rightharpoonup> mxArray"
  trace :: "event list"

text \<open>
  \<^verbatim>\<open>mexErrMsgTxt\<close> prints its message and hands control back to MATLAB: it never
  returns to the MEX file. A computation therefore ends in \<open>Done\<close> with a value or in
  \<open>Abort\<close> with the message, and in both cases leaves a state behind.
\<close>

datatype 'a result = Done 'a | Abort string

type_synonym 'a mex = "mexState \<Rightarrow> 'a result \<times> mexState"

definition mex_return :: "'a \<Rightarrow> 'a mex" where
  "mex_return x = (\<lambda>s. (Done x, s))"

definition mex_bind :: "'a mex \<Rightarrow> ('a \<Rightarrow> 'b mex) \<Rightarrow> 'b mex" where
  "mex_bind m f = (\<lambda>s. case m s of
       (Done x, s') \<Rightarrow> f x s'
     | (Abort msg, s') \<Rightarrow> (Abort msg, s'))"

definition mexErrMsgTxt :: "string \<Rightarrow> 'a mex" where
  "mexErrMsgTxt msg = (\<lambda>s. (Abort msg, s))"

definition emit :: "event \<Rightarrow> unit mex" where
  "emit e = (\<lambda>s. (Done (), s\<lparr>trace := trace s @ [e]\<rparr>))"

definition mexWarnMsgTxt :: "string \<Rightarrow> unit mex" where
  "mexWarnMsgTxt msg = emit (Warning msg)"

text \<open>A call of an external routine: the call is recorded, its value handed on.\<close>

definition extern :: "string \<Rightarrow> real list \<Rightarrow> 'a \<Rightarrow> 'a mex" where
  "extern name args v = mex_bind (emit (Call name args)) (\<lambda>_. mex_return v)"

subsection \<open>The external collaborators\<close>

text \<open>
  None of the routines the file calls is defined in it. The SOFA routines (\<^verbatim>\<open>sofa.h\<close>)
  return a status and write two doubles through pointers: here they return the triple.
  \<^verbatim>\<open>getEOP\<close> is the MATLAB function reached through \<^verbatim>\<open>mexCallMATLAB\<close>, which gives four
  arrays or raises an error (and then \<^verbatim>\<open>mexCallMATLAB\<close> ends the MEX file).
  \<^verbatim>\<open>getDoubleFromMatlab\<close>, \<^verbatim>\<open>doubleMat2Matlab\<close> (used with dimensions 1 by 1 only) and
  \<^verbatim>\<open>checkRealDoubleArray\<close> come from \<^verbatim>\<open>MexValidation.h\<close>; the first and the last may end
  the call with an error message. All of them are parameters of the model.
\<close>

record env =
  iauTtut1 :: "real \<Rightarrow> real \<Rightarrow> real \<Rightarrow> int \<times> real \<times> real"
  iauDtdb :: "real \<Rightarrow> real \<Rightarrow> real \<Rightarrow> real \<Rightarrow> real \<Rightarrow> real \<Rightarrow> real"
  iauTdbtt :: "real \<Rightarrow> real \<Rightarrow> real \<Rightarrow> int \<times> real \<times> real"
  iauTttai :: "real \<Rightarrow> real \<Rightarrow> int \<times> real \<times> real"
  iauTaiutc :: "real \<Rightarrow> real \<Rightarrow> int \<times> real \<times> real"
  getEOP :: "mxArray \<Rightarrow> mxArray \<Rightarrow> string + (mxArray \<times> mxArray \<times> mxArray \<times> mxArray)"
  getDoubleFromMatlab :: "mxArray \<Rightarrow> string + real"
  doubleMat2Matlab :: "real \<Rightarrow> mxArray"
  checkRealDoubleArray :: "mxArray \<Rightarrow> string option"

definition getDouble :: "env \<Rightarrow> mxArray \<Rightarrow> real mex" where
  "getDouble E a = (case getDoubleFromMatlab E a of
       Inl msg \<Rightarrow> mexErrMsgTxt msg
     | Inr x \<Rightarrow> mex_return x)"

text \<open>\<^verbatim>\<open>getDoubleFromMatlab(prhs[i])\<close>: the value of the \<open>i\<close>-th input is read.\<close>

definition readInput :: "env \<Rightarrow> addr list \<Rightarrow> nat \<Rightarrow> real mex" where
  "readInput E prhs i =
     mex_bind (emit (ReadInput i)) (\<lambda>_. (\<lambda>s. getDouble E (store s (prhs ! i)) s))"

text \<open>
  \<^verbatim>\<open>mexCallMATLAB(4,retVals,2,JulUTCMATLAB,"getEOP")\<close>; the arguments are 1 by 1 arrays
  built from the two doubles that the recorded event shows.
\<close>

definition mexCallMATLAB_getEOP ::
  "env \<Rightarrow> real \<Rightarrow> real \<Rightarrow> (mxArray \<times> mxArray \<times> mxArray \<times> mxArray) mex" where
  "mexCallMATLAB_getEOP E JulUTC0 JulUTC1 =
     mex_bind (emit (Call ''getEOP'' [JulUTC0, JulUTC1])) (\<lambda>_.
       case getEOP E (doubleMat2Matlab E JulUTC0) (doubleMat2Matlab E JulUTC1) of
         Inl msg \<Rightarrow> mexErrMsgTxt msg
       | Inr retVals \<Rightarrow> mex_return retVals)"

subsection \<open>The helper \<^verbatim>\<open>getDeltaTFromEOP\<close> (lines 164 to 209)\<close>

definition getDeltaTFromEOP :: "env \<Rightarrow> real \<Rightarrow> real \<Rightarrow> real mex" where
  "getDeltaTFromEOP E TT1 TT2 =
     mex_bind (extern ''iauTttai'' [TT1, TT2] (iauTttai E TT1 TT2)) (\<lambda>(retVal, TAI0, TAI1).
     mex_bind (if retVal \<noteq> 0 then mexErrMsgTxt ''An error occurred computing TAI.''
               else mex_return ()) (\<lambda>_.
     mex_bind (extern ''iauTaiutc'' [TAI0, TAI1] (iauTaiutc E TAI0 TAI1)) (\<lambda>(retVal, JulUTC0, JulUTC1).
     mex_bind (if retVal = 1 then mexWarnMsgTxt ''Dubious Date entered.''
               else if retVal = - 1 then mexErrMsgTxt ''Unacceptable date entered''
               else mex_return ()) (\<lambda>_.
     mex_bind (mexCallMATLAB_getEOP E JulUTC0 JulUTC1) (\<lambda>(r0, r1, r2, r3).
     getDouble E r3)))))"

subsection \<open>The gateway \<^verbatim>\<open>mexFunction\<close> (lines 69 to 162)\<close>

text \<open>
  Lines 101 to 121, the clock location. \<^verbatim>\<open>xyzClock\<close> points into the caller's array, so
  the three divisions by 1000 are writes to the store; \<open>u\<close>, \<open>v\<close> and \<open>elon\<close> are computed
  from what is read back.
\<close>

definition divideElement :: "addr \<Rightarrow> nat \<Rightarrow> mexState \<Rightarrow> mexState" where
  "divideElement p i s =
     s\<lparr>store := (store s)(p := (store s p)
          \<lparr>mxData := (mxData (store s p))[i := mxData (store s p) ! i / 1000]\<rparr>)\<rparr>"

text \<open>
  \<^verbatim>\<open>atan2\<close> of the C library, on the reals: the angle in \<open>(-\<pi>, \<pi>]\<close> of the point
  \<open>(x, y)\<close>, and 0 at the origin.
\<close>

definition atan2 :: "real \<Rightarrow> real \<Rightarrow> real" where
  "atan2 y x =
     (if 0 < x then arctan (y / x)
      else if x < 0 then (if 0 \<le> y then arctan (y / x) + pi else arctan (y / x) - pi)
      else if 0 < y then pi / 2
      else if y < 0 then - (pi / 2)
      else 0)"

definition clockLocation :: "env \<Rightarrow> addr list \<Rightarrow> (real \<times> real \<times> real) mex" where
  "clockLocation E prhs = (\<lambda>s.
     if 3 < length prhs \<and> \<not> mxIsEmpty (store s (prhs ! 3)) then
       if mxM (store s (prhs ! 3)) \<noteq> 3 \<or> mxN (store s (prhs ! 3)) \<noteq> 1 then
         mexErrMsgTxt ''The dimensionality of the clock location is incorrect.'' s
       else
         (case checkRealDoubleArray E (store s (prhs ! 3)) of
            Some msg \<Rightarrow> mexErrMsgTxt msg s
          | None \<Rightarrow>
              mex_bind (emit (ReadInput 3)) (\<lambda>_. (\<lambda>s0.
                let s1 = divideElement (prhs ! 3) 0 s0;
                    s2 = divideElement (prhs ! 3) 1 s1;
                    s3 = divideElement (prhs ! 3) 2 s2;
                    xyzClock = mxData (store s3 (prhs ! 3));
                    u = sqrt (xyzClock ! 0 * xyzClock ! 0 + xyzClock ! 1 * xyzClock ! 1);
                    v = xyzClock ! 2;
                    elon = atan2 (xyzClock ! 1) (xyzClock ! 0)
                in (Done (u, v, elon), s3))) s)
     else mex_return (0, 0, 0) s)"

text \<open>Lines 144 to 146: the fraction of a Julian day in UT1. C's \<^verbatim>\<open>floor\<close> gives a double.\<close>

definition ut1Fraction :: "real \<Rightarrow> real \<Rightarrow> real" where
  "ut1Fraction Jul1UT1 Jul2UT1 =
     (let UT1Frac = (Jul1UT1 - of_int \<lfloor>Jul1UT1\<rfloor>) + (Jul2UT1 - of_int \<lfloor>Jul2UT1\<rfloor>)
      in UT1Frac - of_int \<lfloor>UT1Frac\<rfloor>)"

text \<open>
  Lines 125 to 155, the body of the loop. The variables that live across iterations are
  \<open>TT1\<close>, \<open>TT2\<close> and \<open>deltaTTUT1\<close>.
\<close>

definition loopBody ::
  "env \<Rightarrow> real \<Rightarrow> real \<Rightarrow> bool \<Rightarrow> real \<Rightarrow> real \<Rightarrow> real \<Rightarrow> real \<times> real \<times> real
     \<Rightarrow> (real \<times> real \<times> real) mex" where
  "loopBody E TDB1 TDB2 iterateDeltaT elon u v = (\<lambda>(TT1, TT2, deltaTTUT1).
     mex_bind (if iterateDeltaT then getDeltaTFromEOP E TT1 TT2
               else mex_return deltaTTUT1) (\<lambda>deltaTTUT1.
     mex_bind (extern ''iauTtut1'' [TT1, TT2, deltaTTUT1] (iauTtut1 E TT1 TT2 deltaTTUT1))
       (\<lambda>(retVal, Jul1UT1, Jul2UT1).
     mex_bind (if retVal = - 1 then mexErrMsgTxt ''Unacceptable date provided.''
               else if retVal = 1 then mexWarnMsgTxt ''Dubious year provided\<newline>''
               else mex_return ()) (\<lambda>_.
     mex_bind (extern ''iauDtdb'' [TDB1, TDB2, ut1Fraction Jul1UT1 Jul2UT1, elon, u, v]
                 (iauDtdb E TDB1 TDB2 (ut1Fraction Jul1UT1 Jul2UT1) elon u v)) (\<lambda>deltaT.
     mex_bind (extern ''iauTdbtt'' [TDB1, TDB2, deltaT] (iauTdbtt E TDB1 TDB2 deltaT))
       (\<lambda>(retVal, TT1', TT2').
     if retVal \<noteq> 0
     then mexErrMsgTxt ''An error occured during an intermediate conversion to TDB.\<newline>''
     else mex_return (TT1', TT2', deltaTTUT1)))))))"

text \<open>Line 124: \<^verbatim>\<open>for(curIter=0;curIter<2;curIter++)\<close>.\<close>

function iterate ::
  "env \<Rightarrow> real \<Rightarrow> real \<Rightarrow> bool \<Rightarrow> real \<Rightarrow> real \<Rightarrow> real \<Rightarrow> int \<Rightarrow> real \<times> real \<times> real
     \<Rightarrow> mexState \<Rightarrow> (real \<times> real \<times> real) result \<times> mexState" where
  "iterate E TDB1 TDB2 iterateDeltaT elon u v curIter vars s =
     (if curIter < 2 then
        (case loopBody E TDB1 TDB2 iterateDeltaT elon u v vars s of
           (Done vars', s') \<Rightarrow> iterate E TDB1 TDB2 iterateDeltaT elon u v (curIter + 1) vars' s'
         | (Abort msg, s') \<Rightarrow> (Abort msg, s'))
      else (Done vars, s))"
  by pat_completeness auto
termination
  by (relation "measure (\<lambda>(E, TDB1, TDB2, iterateDeltaT, elon, u, v, curIter, vars, s).
        nat (2 - curIter))") auto

text \<open>Lines 93 to 99: the optional offset. \<open>deltaTTUT1\<close> starts at 0 (line 70).\<close>

definition deltaTArgument :: "env \<Rightarrow> addr list \<Rightarrow> (bool \<times> real) mex" where
  "deltaTArgument E prhs = (\<lambda>s.
     if 2 < length prhs \<and> \<not> mxIsEmpty (store s (prhs ! 2)) then
       mex_bind (readInput E prhs 2) (\<lambda>deltaTTUT1. mex_return (False, deltaTTUT1)) s
     else mex_return (True, 0) s)"

definition setOutput :: "nat \<Rightarrow> mxArray \<Rightarrow> unit mex" where
  "setOutput i a = (\<lambda>s. (Done (), s\<lparr>plhs := (plhs s)(i \<mapsto> a)\<rparr>))"

text \<open>
  The gateway. MATLAB passes \<open>nrhs\<close> as the number of entries of \<open>prhs\<close>, so the model
  takes the list and computes \<open>nrhs\<close>.
\<close>

definition mexFunction :: "env \<Rightarrow> int \<Rightarrow> addr list \<Rightarrow> unit mex" where
  "mexFunction E nlhs prhs =
     (let nrhs = int (length prhs) in
      if nrhs < 2 \<or> nrhs > 4 then mexErrMsgTxt ''Wrong number of inputs.''
      else if nlhs > 2 then mexErrMsgTxt ''Wrong number of outputs.''
      else
        mex_bind (readInput E prhs 0) (\<lambda>TDB1.
        mex_bind (readInput E prhs 1) (\<lambda>TDB2.
        mex_bind (deltaTArgument E prhs) (\<lambda>(iterateDeltaT, deltaTTUT1).
        mex_bind (clockLocation E prhs) (\<lambda>(u, v, elon).
        mex_bind (iterate E TDB1 TDB2 iterateDeltaT elon u v 0 (TDB1, TDB2, deltaTTUT1))
          (\<lambda>(TT1, TT2, deltaTTUT1).
        mex_bind (setOutput 0 (doubleMat2Matlab E TT1)) (\<lambda>_.
        if nlhs > 1 then setOutput 1 (doubleMat2Matlab E TT2) else mex_return ())))))))"

subsection \<open>The algorithm as the specification words it\<close>

text \<open>
  Section 4.1 of the specification, for comparison with the loop above. Step a: the
  offset TT-UT1 is the supplied one or, when none was supplied, looked up at the current
  TT estimate. Step b: TT to UT1, fatal on an out-of-range date, a warning on an uncertain
  one. Step c: the fractional day of the full UT1 date. Step d: the correction TDB-TT.
  Step e: the correction applied to the original TDB. The messages are the source's.
\<close>

definition spec_offset :: "env \<Rightarrow> real option \<Rightarrow> real \<Rightarrow> real \<Rightarrow> real mex" where
  "spec_offset E supplied TT1 TT2 =
     (case supplied of Some d \<Rightarrow> mex_return d | None \<Rightarrow> getDeltaTFromEOP E TT1 TT2)"

definition spec_toUT1 :: "env \<Rightarrow> real \<Rightarrow> real \<Rightarrow> real \<Rightarrow> (real \<times> real) mex" where
  "spec_toUT1 E TT1 TT2 offset =
     mex_bind (extern ''iauTtut1'' [TT1, TT2, offset] (iauTtut1 E TT1 TT2 offset))
       (\<lambda>(status, UT11, UT12).
          if status = - 1 then mexErrMsgTxt ''Unacceptable date provided.''
          else if status = 1
          then mex_bind (mexWarnMsgTxt ''Dubious year provided\<newline>'') (\<lambda>_. mex_return (UT11, UT12))
          else mex_return (UT11, UT12))"

definition spec_applyCorrection :: "env \<Rightarrow> real \<Rightarrow> real \<Rightarrow> real \<Rightarrow> (real \<times> real) mex" where
  "spec_applyCorrection E TDB1 TDB2 correction =
     mex_bind (extern ''iauTdbtt'' [TDB1, TDB2, correction] (iauTdbtt E TDB1 TDB2 correction))
       (\<lambda>(status, TT1, TT2).
          if status = 0 then mex_return (TT1, TT2)
          else mexErrMsgTxt ''An error occured during an intermediate conversion to TDB.\<newline>'')"

definition spec_refine ::
  "env \<Rightarrow> real \<Rightarrow> real \<Rightarrow> real option \<Rightarrow> real \<Rightarrow> real \<Rightarrow> real \<Rightarrow> real \<times> real \<Rightarrow> (real \<times> real) mex" where
  "spec_refine E TDB1 TDB2 supplied elon u v = (\<lambda>(TT1, TT2).
     mex_bind (spec_offset E supplied TT1 TT2) (\<lambda>offset.
     mex_bind (spec_toUT1 E TT1 TT2 offset) (\<lambda>(UT11, UT12).
     mex_bind (extern ''iauDtdb'' [TDB1, TDB2, frac (UT11 + UT12), elon, u, v]
                 (iauDtdb E TDB1 TDB2 (frac (UT11 + UT12)) elon u v)) (\<lambda>correction.
     spec_applyCorrection E TDB1 TDB2 correction))))"

definition spec_TDB2TT ::
  "env \<Rightarrow> real \<Rightarrow> real \<Rightarrow> real option \<Rightarrow> real \<Rightarrow> real \<Rightarrow> real \<Rightarrow> (real \<times> real) mex" where
  "spec_TDB2TT E TDB1 TDB2 supplied elon u v =
     mex_bind (spec_refine E TDB1 TDB2 supplied elon u v (TDB1, TDB2))
       (spec_refine E TDB1 TDB2 supplied elon u v)"

subsection \<open>Events of the Earth-orientation lookup\<close>

text \<open>
  The three external calls that only \<^verbatim>\<open>getDeltaTFromEOP\<close> makes; the first of them is
  the first thing the helper does.
\<close>

definition lookupEvent :: "event \<Rightarrow> bool" where
  "lookupEvent e = (case e of
       Call name args \<Rightarrow> name = ''iauTttai'' \<or> name = ''iauTaiutc'' \<or> name = ''getEOP''
     | _ \<Rightarrow> False)"

definition lookups :: "mexState \<Rightarrow> event list" where
  "lookups s = filter lookupEvent (trace s)"

subsection \<open>A stub environment and a workspace for concrete runs\<close>

definition scalar :: "real \<Rightarrow> mxArray" where
  "scalar x = \<lparr>mxM = 1, mxN = 1, mxRealDouble = True, mxData = [x]\<rparr>"

definition emptyArray :: mxArray where
  "emptyArray = \<lparr>mxM = 0, mxN = 0, mxRealDouble = True, mxData = []\<rparr>"

definition columnVector :: "real list \<Rightarrow> mxArray" where
  "columnVector xs = \<lparr>mxM = length xs, mxN = 1, mxRealDouble = True, mxData = xs\<rparr>"

definition rowVector :: "real list \<Rightarrow> mxArray" where
  "rowVector xs = \<lparr>mxM = 1, mxN = length xs, mxRealDouble = True, mxData = xs\<rparr>"

text \<open>
  The stub conversions shift the second component only; a date before 0 is
  unacceptable and a date after 3000000 is dubious. The stub correction grows with the
  height of the clock, and the stub \<^verbatim>\<open>iauTdbtt\<close> refuses a correction of a second or more.
  The stub \<^verbatim>\<open>getEOP\<close> gives 69 seconds.
\<close>

definition stubStatus :: "real \<Rightarrow> int" where
  "stubStatus d = (if d < 0 then - 1 else if 3000000 < d then 1 else 0)"

definition stubEnv :: env where
  "stubEnv = \<lparr>
     iauTtut1 = (\<lambda>a b d. (stubStatus (a + b), a, b - d / 86400)),
     iauDtdb = (\<lambda>d1 d2 ut elong u v. ut / 1000 + v),
     iauTdbtt = (\<lambda>d1 d2 dt. (if 1 \<le> dt then 1 else 0, d1, d2 - dt / 86400)),
     iauTttai = (\<lambda>a b. (0, a, b)),
     iauTaiutc = (\<lambda>a b. (stubStatus (a + b), a, b)),
     getEOP = (\<lambda>a b. Inr (emptyArray, emptyArray, emptyArray, scalar 69)),
     getDoubleFromMatlab = (\<lambda>a. case mxData a of
         [x] \<Rightarrow> Inr x
       | _ \<Rightarrow> Inl ''A parameter that should be scalar is not.''),
     doubleMat2Matlab = scalar,
     checkRealDoubleArray = (\<lambda>a. if mxRealDouble a then None
       else Some ''A parameter that should be a real double array is not.'')\<rparr>"

definition workspace :: "mxArray list \<Rightarrow> mexState" where
  "workspace arrays =
     \<lparr>store = (\<lambda>p. if p < length arrays then arrays ! p else emptyArray),
      plhs = Map.empty, trace = []\<rparr>"

section \<open>Facts about the model\<close>

subsection \<open>Sequencing\<close>

declare iterate.simps [simp del]

lemma mex_bind_return [simp]: "mex_bind (mex_return x) f = f x"
  by (simp add: mex_bind_def mex_return_def)

lemma mex_bind_abort [simp]: "mex_bind (mexErrMsgTxt msg) f = mexErrMsgTxt msg"
  by (simp add: mex_bind_def mexErrMsgTxt_def)

lemma mex_bind_cases [consumes 1, case_names Abort Done]:
  assumes "mex_bind m f s = (r, s')"
  obtains (Abort) msg where "m s = (Abort msg, s')" "r = Abort msg"
        | (Done) x s1 where "m s = (Done x, s1)" "f x s1 = (r, s')"
  using assms by (auto simp: mex_bind_def split: prod.splits result.splits)

lemma mex_bind_cong_run:
  assumes "\<And>x s1. m s = (Done x, s1) \<Longrightarrow> k x s1 = k' x s1"
  shows "mex_bind m k s = mex_bind m k' s"
  using assms by (auto simp: mex_bind_def split: prod.splits result.splits)

lemmas stub_defs = stubEnv_def stubStatus_def workspace_def scalar_def emptyArray_def
  columnVector_def rowVector_def

lemmas run_defs = mex_bind_def mex_return_def mexErrMsgTxt_def emit_def extern_def
  mexWarnMsgTxt_def readInput_def getDouble_def deltaTArgument_def clockLocation_def
  setOutput_def mxIsEmpty_def

subsection \<open>The loop runs its body twice\<close>

lemma iterate_unrolled:
  "iterate E TDB1 TDB2 iterateDeltaT elon u v 0 vars s =
     mex_bind (loopBody E TDB1 TDB2 iterateDeltaT elon u v vars)
       (loopBody E TDB1 TDB2 iterateDeltaT elon u v) s"
  by (simp add: iterate.simps [of _ _ _ _ _ _ _ 0] iterate.simps [of _ _ _ _ _ _ _ 1]
      iterate.simps [of _ _ _ _ _ _ _ 2] mex_bind_def split: prod.splits result.splits)

lemmas loop_defs = mexFunction_def Let_def iterate_unrolled loopBody_def getDeltaTFromEOP_def
  mexCallMATLAB_getEOP_def ut1Fraction_def

subsection \<open>The fraction of a day\<close>

lemma ut1Fraction_frac: "ut1Fraction Jul1UT1 Jul2UT1 = frac (Jul1UT1 + Jul2UT1)"
proof -
  define a where "a = (Jul1UT1 - of_int \<lfloor>Jul1UT1\<rfloor>) + (Jul2UT1 - of_int \<lfloor>Jul2UT1\<rfloor>)"
  define n where "n = \<lfloor>Jul1UT1\<rfloor> + \<lfloor>Jul2UT1\<rfloor>"
  have sum: "Jul1UT1 + Jul2UT1 = a + of_int n"
    by (simp add: a_def n_def)
  have "\<lfloor>Jul1UT1 + Jul2UT1\<rfloor> = \<lfloor>a\<rfloor> + n"
    unfolding sum by (rule floor_add_int [symmetric])
  then have "frac (Jul1UT1 + Jul2UT1) = a - of_int \<lfloor>a\<rfloor>"
    unfolding frac_def by (simp add: sum)
  then show ?thesis
    by (simp add: ut1Fraction_def Let_def a_def)
qed

subsection \<open>The loop body against the specification's refinement step\<close>

lemma loopBody_refines:
  "(case loopBody E TDB1 TDB2 iterateDeltaT elon u v (TT1, TT2, d0) s of
      (Done (a, b, c), s') \<Rightarrow> (Done (a, b), s')
    | (Abort msg, s') \<Rightarrow> (Abort msg, s'))
   = spec_refine E TDB1 TDB2 (if iterateDeltaT then None else Some d0) elon u v (TT1, TT2) s"
  by (auto simp: loopBody_def spec_refine_def spec_offset_def spec_toUT1_def
      spec_applyCorrection_def ut1Fraction_frac mex_bind_def extern_def emit_def
      mexErrMsgTxt_def mex_return_def mexWarnMsgTxt_def split: prod.splits result.splits)

lemma loopBody_keeps_supplied:
  "loopBody E TDB1 TDB2 False elon u v (TT1, TT2, d0) s = (Done (a, b, c), s') \<Longrightarrow> c = d0"
  by (auto simp: loopBody_def mex_bind_def extern_def emit_def
      mexErrMsgTxt_def mex_return_def mexWarnMsgTxt_def split: prod.splits result.splits if_splits)

lemma iterate_refines:
  "(case iterate E TDB1 TDB2 iterateDeltaT elon u v 0 (TDB1, TDB2, d0) s of
      (Done (a, b, c), s') \<Rightarrow> (Done (a, b), s')
    | (Abort msg, s') \<Rightarrow> (Abort msg, s'))
   = spec_TDB2TT E TDB1 TDB2 (if iterateDeltaT then None else Some d0) elon u v s"
proof -
  let ?body = "loopBody E TDB1 TDB2 iterateDeltaT elon u v"
  let ?refine = "spec_refine E TDB1 TDB2 (if iterateDeltaT then None else Some d0) elon u v"
  obtain r s1 where first: "?body (TDB1, TDB2, d0) s = (r, s1)"
    by (cases "?body (TDB1, TDB2, d0) s")
  show ?thesis
  proof (cases r)
    case (Abort msg)
    with first loopBody_refines [of E TDB1 TDB2 iterateDeltaT elon u v TDB1 TDB2 d0 s]
    have "?refine (TDB1, TDB2) s = (Abort msg, s1)" by simp
    with first Abort show ?thesis
      by (simp add: iterate_unrolled spec_TDB2TT_def mex_bind_def)
  next
    case (Done vars)
    obtain a b c where vars: "vars = (a, b, c)" by (cases vars)
    from first Done vars loopBody_refines [of E TDB1 TDB2 iterateDeltaT elon u v TDB1 TDB2 d0 s]
    have one: "?refine (TDB1, TDB2) s = (Done (a, b), s1)" by simp
    have same: "(if iterateDeltaT then None else Some c) = (if iterateDeltaT then None else Some d0)"
      using first Done vars loopBody_keeps_supplied [of E TDB1 TDB2 elon u v TDB1 TDB2 d0 s a b c s1]
      by auto
    have two: "(case ?body (a, b, c) s1 of
        (Done (a, b, c), s') \<Rightarrow> (Done (a, b), s')
      | (Abort msg, s') \<Rightarrow> (Abort msg, s')) = ?refine (a, b) s1"
      using loopBody_refines [of E TDB1 TDB2 iterateDeltaT elon u v a b c s1] same by simp
    from first Done vars one two show ?thesis
      by (simp add: iterate_unrolled spec_TDB2TT_def mex_bind_def split: prod.splits result.splits)
  qed
qed

subsection \<open>What a phase leaves untouched\<close>

lemma getDeltaTFromEOP_frame:
  "getDeltaTFromEOP E a b s = (r, s') \<Longrightarrow> store s' = store s \<and> plhs s' = plhs s"
  by (auto simp: getDeltaTFromEOP_def mex_bind_def extern_def emit_def mexErrMsgTxt_def
      mex_return_def mexWarnMsgTxt_def mexCallMATLAB_getEOP_def getDouble_def
      split: sum.splits prod.splits if_splits)

lemma loopBody_frame:
  assumes "loopBody E TDB1 TDB2 iterateDeltaT elon u v vars s = (r, s')"
  shows "store s' = store s \<and> plhs s' = plhs s"
proof -
  obtain TT1 TT2 d0 where vars: "vars = (TT1, TT2, d0)" by (cases vars)
  obtain r0 s0 where lookup: "(if iterateDeltaT then getDeltaTFromEOP E TT1 TT2
      else mex_return d0) s = (r0, s0)"
    by (cases "(if iterateDeltaT then getDeltaTFromEOP E TT1 TT2 else mex_return d0) s")
  have s0: "store s0 = store s \<and> plhs s0 = plhs s"
    using lookup getDeltaTFromEOP_frame [of E TT1 TT2 s r0 s0]
    by (auto simp: mex_return_def split: if_splits)
  show ?thesis
    using assms lookup s0 unfolding vars loopBody_def
    by (auto simp: mex_bind_def extern_def emit_def mexErrMsgTxt_def
      mex_return_def mexWarnMsgTxt_def split: prod.splits if_splits result.splits)
qed

lemma iterate_frame:
  assumes "iterate E TDB1 TDB2 iterateDeltaT elon u v 0 vars s = (r, s')"
  shows "store s' = store s \<and> plhs s' = plhs s"
proof -
  obtain r1 s1 where one: "loopBody E TDB1 TDB2 iterateDeltaT elon u v vars s = (r1, s1)"
    by (cases "loopBody E TDB1 TDB2 iterateDeltaT elon u v vars s")
  note f1 = loopBody_frame [OF one]
  show ?thesis
  proof (cases r1)
    case (Abort msg)
    with assms one f1 show ?thesis by (simp add: iterate_unrolled mex_bind_def)
  next
    case (Done vars1)
    with assms one have "loopBody E TDB1 TDB2 iterateDeltaT elon u v vars1 s1 = (r, s')"
      by (simp add: iterate_unrolled mex_bind_def)
    from loopBody_frame [OF this] f1 show ?thesis by simp
  qed
qed

lemma readInput_frame:
  "readInput E prhs i s = (r, s') \<Longrightarrow> store s' = store s \<and> plhs s' = plhs s"
  by (auto simp: readInput_def getDouble_def mex_bind_def emit_def mexErrMsgTxt_def
      mex_return_def split: sum.splits)

lemma deltaTArgument_frame:
  "deltaTArgument E prhs s = (r, s') \<Longrightarrow> store s' = store s \<and> plhs s' = plhs s"
  by (auto simp: deltaTArgument_def readInput_def getDouble_def mex_bind_def emit_def
      mexErrMsgTxt_def mex_return_def split: sum.splits if_splits)

lemma clockLocation_plhs:
  "clockLocation E prhs s = (r, s') \<Longrightarrow> plhs s' = plhs s"
  by (auto simp: clockLocation_def mex_bind_def emit_def mexErrMsgTxt_def Let_def
      divideElement_def mex_return_def split: option.splits if_splits)


subsection \<open>The ways a call can go\<close>

lemma mexFunction_valid:
  assumes "\<not> (length prhs < 2 \<or> 4 < length prhs)" "\<not> 2 < nlhs"
  shows "mexFunction E nlhs prhs =
        mex_bind (readInput E prhs 0) (\<lambda>TDB1.
        mex_bind (readInput E prhs 1) (\<lambda>TDB2.
        mex_bind (deltaTArgument E prhs) (\<lambda>(iterateDeltaT, deltaTTUT1).
        mex_bind (clockLocation E prhs) (\<lambda>(u, v, elon).
        mex_bind (iterate E TDB1 TDB2 iterateDeltaT elon u v 0 (TDB1, TDB2, deltaTTUT1))
          (\<lambda>(TT1, TT2, deltaTTUT1).
        mex_bind (setOutput 0 (doubleMat2Matlab E TT1)) (\<lambda>_.
        if nlhs > 1 then setOutput 1 (doubleMat2Matlab E TT2) else mex_return ()))))))"
  using assms by (simp add: mexFunction_def Let_def)


lemma mexFunction_runs [consumes 3, case_names Abort0 Abort1 Abort2 Abort3 AbortLoop1 AbortLoop2 Done]:
  assumes "\<not> (length prhs < 2 \<or> 4 < length prhs)" "\<not> 2 < nlhs"
      and run: "mexFunction E nlhs prhs s = (r, s')"
  obtains
    (Abort0) msg where
      "readInput E prhs 0 s = (Abort msg, s')" "r = Abort msg"
  | (Abort1) TDB1 s1 msg where
      "readInput E prhs 0 s = (Done TDB1, s1)"
      "readInput E prhs 1 s1 = (Abort msg, s')" "r = Abort msg"
  | (Abort2) TDB1 s1 TDB2 s2 msg where
      "readInput E prhs 0 s = (Done TDB1, s1)"
      "readInput E prhs 1 s1 = (Done TDB2, s2)"
      "deltaTArgument E prhs s2 = (Abort msg, s')" "r = Abort msg"
  | (Abort3) TDB1 s1 TDB2 s2 iterateDeltaT d0 s3 msg where
      "readInput E prhs 0 s = (Done TDB1, s1)"
      "readInput E prhs 1 s1 = (Done TDB2, s2)"
      "deltaTArgument E prhs s2 = (Done (iterateDeltaT, d0), s3)"
      "clockLocation E prhs s3 = (Abort msg, s')" "r = Abort msg"
  | (AbortLoop1) TDB1 s1 TDB2 s2 iterateDeltaT d0 s3 u v elon s4 msg where
      "readInput E prhs 0 s = (Done TDB1, s1)"
      "readInput E prhs 1 s1 = (Done TDB2, s2)"
      "deltaTArgument E prhs s2 = (Done (iterateDeltaT, d0), s3)"
      "clockLocation E prhs s3 = (Done (u, v, elon), s4)"
      "loopBody E TDB1 TDB2 iterateDeltaT elon u v (TDB1, TDB2, d0) s4 = (Abort msg, s')"
      "r = Abort msg"
  | (AbortLoop2) TDB1 s1 TDB2 s2 iterateDeltaT d0 s3 u v elon s4 vars1 s5 msg where
      "readInput E prhs 0 s = (Done TDB1, s1)"
      "readInput E prhs 1 s1 = (Done TDB2, s2)"
      "deltaTArgument E prhs s2 = (Done (iterateDeltaT, d0), s3)"
      "clockLocation E prhs s3 = (Done (u, v, elon), s4)"
      "loopBody E TDB1 TDB2 iterateDeltaT elon u v (TDB1, TDB2, d0) s4 = (Done vars1, s5)"
      "loopBody E TDB1 TDB2 iterateDeltaT elon u v vars1 s5 = (Abort msg, s')"
      "r = Abort msg"
  | (Done) TDB1 s1 TDB2 s2 iterateDeltaT d0 s3 u v elon s4 vars1 s5 TT1 TT2 d s6 where
      "readInput E prhs 0 s = (Done TDB1, s1)"
      "readInput E prhs 1 s1 = (Done TDB2, s2)"
      "deltaTArgument E prhs s2 = (Done (iterateDeltaT, d0), s3)"
      "clockLocation E prhs s3 = (Done (u, v, elon), s4)"
      "loopBody E TDB1 TDB2 iterateDeltaT elon u v (TDB1, TDB2, d0) s4 = (Done vars1, s5)"
      "loopBody E TDB1 TDB2 iterateDeltaT elon u v vars1 s5 = (Done (TT1, TT2, d), s6)"
      "r = Done ()"
      "s' = s6\<lparr>plhs :=
              (if 1 < nlhs
               then (plhs s6)(0 \<mapsto> doubleMat2Matlab E TT1, 1 \<mapsto> doubleMat2Matlab E TT2)
               else (plhs s6)(0 \<mapsto> doubleMat2Matlab E TT1))\<rparr>"
proof -
  from run [unfolded mexFunction_valid [OF assms(1,2)]] show ?thesis
  proof (cases rule: mex_bind_cases)
    case (Abort msg)
    then show ?thesis by (rule Abort0)
  next
    case (Done TDB1 s1)
    note r0 = Done(1)
    from Done(2) show ?thesis
    proof (cases rule: mex_bind_cases)
      case (Abort msg)
      with r0 show ?thesis by (intro Abort1)
    next
      case (Done TDB2 s2)
      note r1 = Done(1)
      from Done(2) show ?thesis
      proof (cases rule: mex_bind_cases)
        case (Abort msg)
        with r0 r1 show ?thesis by (intro Abort2)
      next
        case (Done p s3)
        obtain iterateDeltaT d0 where p: "p = (iterateDeltaT, d0)" by (cases p)
        note r2 = Done(1) [unfolded p]
        from Done(2) [unfolded p prod.case] show ?thesis
        proof (cases rule: mex_bind_cases)
          case (Abort msg)
          with r0 r1 r2 show ?thesis by (intro Abort3)
        next
          case (Done q s4)
          obtain u v elon where q: "q = (u, v, elon)" by (cases q)
          note r3 = Done(1) [unfolded q]
          from Done(2) [unfolded q prod.case] show ?thesis
          proof (cases rule: mex_bind_cases)
            case (Abort msg)
            from Abort(1) [unfolded iterate_unrolled] show ?thesis
            proof (cases rule: mex_bind_cases)
              case in1: (Abort msg')
              with r0 r1 r2 r3 Abort(2) show ?thesis by (intro AbortLoop1) auto
            next
              case in2: (Done vars1 s5)
              with r0 r1 r2 r3 Abort(2) show ?thesis by (intro AbortLoop2)
            qed
          next
            case (Done w s6)
            obtain TT1 TT2 d where w: "w = (TT1, TT2, d)" by (cases w)
            from Done(1) [unfolded iterate_unrolled w] obtain vars1 s5 where
              l1: "loopBody E TDB1 TDB2 iterateDeltaT elon u v (TDB1, TDB2, d0) s4 = (Done vars1, s5)"
              and l2: "loopBody E TDB1 TDB2 iterateDeltaT elon u v vars1 s5 = (Done (TT1, TT2, d), s6)"
              by (cases rule: mex_bind_cases) auto
            have out: "r = Done () \<and> s' = s6\<lparr>plhs :=
              (if 1 < nlhs
               then (plhs s6)(0 \<mapsto> doubleMat2Matlab E TT1, 1 \<mapsto> doubleMat2Matlab E TT2)
               else (plhs s6)(0 \<mapsto> doubleMat2Matlab E TT1))\<rparr>"
              using Done(2) unfolding w
              by (auto simp: mex_bind_def setOutput_def mex_return_def)
            with r0 r1 r2 r3 l1 l2 show ?thesis by (intro that(7)) auto
          qed
        qed
      qed
    qed
  qed
qed

lemma mexFunction_usage:
  assumes "length prhs < 2 \<or> 4 < length prhs \<or> 2 < nlhs"
  shows "mexFunction E nlhs prhs s =
     (Abort (if length prhs < 2 \<or> 4 < length prhs then ''Wrong number of inputs.''
             else ''Wrong number of outputs.''), s)"
  using assms by (auto simp: mexFunction_def Let_def mexErrMsgTxt_def)


subsection \<open>Independence of the Earth-orientation source\<close>

lemma readInput_getEOP: "readInput (E\<lparr>getEOP := g\<rparr>) = readInput E"
  by (simp add: readInput_def getDouble_def fun_eq_iff)

lemma deltaTArgument_getEOP: "deltaTArgument (E\<lparr>getEOP := g\<rparr>) = deltaTArgument E"
  by (simp add: deltaTArgument_def readInput_getEOP fun_eq_iff)

lemma clockLocation_getEOP: "clockLocation (E\<lparr>getEOP := g\<rparr>) = clockLocation E"
  by (simp add: clockLocation_def fun_eq_iff)

lemma loopBody_getEOP:
  "loopBody (E\<lparr>getEOP := g\<rparr>) TDB1 TDB2 False elon u v = loopBody E TDB1 TDB2 False elon u v"
  by (simp add: loopBody_def)

lemma iterate_getEOP:
  "iterate (E\<lparr>getEOP := g\<rparr>) TDB1 TDB2 False elon u v 0 vars
     = iterate E TDB1 TDB2 False elon u v 0 vars"
  by (rule ext) (simp add: iterate_unrolled loopBody_getEOP)

lemma deltaTArgument_supplied:
  assumes "2 < length prhs" "\<not> mxIsEmpty (store s (prhs ! 2))"
      and "deltaTArgument E prhs s = (Done (iterateDeltaT, d), s')"
  shows "\<not> iterateDeltaT"
  using assms
  by (auto simp: deltaTArgument_def mex_bind_def mex_return_def split: prod.splits result.splits)

lemma mexFunction_getEOP:
  assumes "2 < length prhs" "\<not> mxIsEmpty (store s (prhs ! 2))"
  shows "mexFunction (E\<lparr>getEOP := g\<rparr>) nlhs prhs s = mexFunction E nlhs prhs s"
proof (cases "length prhs < 2 \<or> 4 < length prhs \<or> 2 < nlhs")
  case True
  then show ?thesis by (simp add: mexFunction_usage)
next
  case False
  then have valid: "\<not> (length prhs < 2 \<or> 4 < length prhs)" "\<not> 2 < nlhs" by auto
  show ?thesis
    unfolding mexFunction_valid [OF valid] readInput_getEOP deltaTArgument_getEOP
      clockLocation_getEOP
  proof (rule mex_bind_cong_run)
    fix TDB1 s1
    assume r0: "readInput E prhs 0 s = (Done TDB1, s1)"
    show "mex_bind (readInput E prhs 1) (\<lambda>TDB2.
        mex_bind (deltaTArgument E prhs) (\<lambda>(iterateDeltaT, deltaTTUT1).
        mex_bind (clockLocation E prhs) (\<lambda>(u, v, elon).
        mex_bind (iterate (E\<lparr>getEOP := g\<rparr>) TDB1 TDB2 iterateDeltaT elon u v 0 (TDB1, TDB2, deltaTTUT1))
          (\<lambda>(TT1, TT2, deltaTTUT1).
        mex_bind (setOutput 0 (doubleMat2Matlab (E\<lparr>getEOP := g\<rparr>) TT1)) (\<lambda>_.
        if nlhs > 1 then setOutput 1 (doubleMat2Matlab (E\<lparr>getEOP := g\<rparr>) TT2) else mex_return ()))))) s1
      = mex_bind (readInput E prhs 1) (\<lambda>TDB2.
        mex_bind (deltaTArgument E prhs) (\<lambda>(iterateDeltaT, deltaTTUT1).
        mex_bind (clockLocation E prhs) (\<lambda>(u, v, elon).
        mex_bind (iterate E TDB1 TDB2 iterateDeltaT elon u v 0 (TDB1, TDB2, deltaTTUT1))
          (\<lambda>(TT1, TT2, deltaTTUT1).
        mex_bind (setOutput 0 (doubleMat2Matlab E TT1)) (\<lambda>_.
        if nlhs > 1 then setOutput 1 (doubleMat2Matlab E TT2) else mex_return ()))))) s1"
    proof (rule mex_bind_cong_run)
      fix TDB2 s2
      assume r1: "readInput E prhs 1 s1 = (Done TDB2, s2)"
      have st: "store s2 = store s"
        using readInput_frame [OF r0] readInput_frame [OF r1] by simp
      show "mex_bind (deltaTArgument E prhs) (\<lambda>(iterateDeltaT, deltaTTUT1).
        mex_bind (clockLocation E prhs) (\<lambda>(u, v, elon).
        mex_bind (iterate (E\<lparr>getEOP := g\<rparr>) TDB1 TDB2 iterateDeltaT elon u v 0 (TDB1, TDB2, deltaTTUT1))
          (\<lambda>(TT1, TT2, deltaTTUT1).
        mex_bind (setOutput 0 (doubleMat2Matlab (E\<lparr>getEOP := g\<rparr>) TT1)) (\<lambda>_.
        if nlhs > 1 then setOutput 1 (doubleMat2Matlab (E\<lparr>getEOP := g\<rparr>) TT2) else mex_return ())))) s2
      = mex_bind (deltaTArgument E prhs) (\<lambda>(iterateDeltaT, deltaTTUT1).
        mex_bind (clockLocation E prhs) (\<lambda>(u, v, elon).
        mex_bind (iterate E TDB1 TDB2 iterateDeltaT elon u v 0 (TDB1, TDB2, deltaTTUT1))
          (\<lambda>(TT1, TT2, deltaTTUT1).
        mex_bind (setOutput 0 (doubleMat2Matlab E TT1)) (\<lambda>_.
        if nlhs > 1 then setOutput 1 (doubleMat2Matlab E TT2) else mex_return ())))) s2"
      proof (rule mex_bind_cong_run)
        fix p s3
        assume r2: "deltaTArgument E prhs s2 = (Done p, s3)"
        obtain iterateDeltaT d where p: "p = (iterateDeltaT, d)" by (cases p)
        have "\<not> iterateDeltaT"
          using deltaTArgument_supplied [of prhs s2 E iterateDeltaT d s3] assms r2 st p by simp
        then show "(case p of (iterateDeltaT, deltaTTUT1) \<Rightarrow>
            mex_bind (clockLocation E prhs) (\<lambda>(u, v, elon).
            mex_bind (iterate (E\<lparr>getEOP := g\<rparr>) TDB1 TDB2 iterateDeltaT elon u v 0 (TDB1, TDB2, deltaTTUT1))
              (\<lambda>(TT1, TT2, deltaTTUT1).
            mex_bind (setOutput 0 (doubleMat2Matlab (E\<lparr>getEOP := g\<rparr>) TT1)) (\<lambda>_.
            if nlhs > 1 then setOutput 1 (doubleMat2Matlab (E\<lparr>getEOP := g\<rparr>) TT2) else mex_return ())))) s3
          = (case p of (iterateDeltaT, deltaTTUT1) \<Rightarrow>
            mex_bind (clockLocation E prhs) (\<lambda>(u, v, elon).
            mex_bind (iterate E TDB1 TDB2 iterateDeltaT elon u v 0 (TDB1, TDB2, deltaTTUT1))
              (\<lambda>(TT1, TT2, deltaTTUT1).
            mex_bind (setOutput 0 (doubleMat2Matlab E TT1)) (\<lambda>_.
            if nlhs > 1 then setOutput 1 (doubleMat2Matlab E TT2) else mex_return ())))) s3"
          by (simp add: p iterate_getEOP cong: if_cong)
      qed
    qed
  qed
qed


lemma readInput_lookups: "readInput E prhs i s = (r, s') \<Longrightarrow> lookups s' = lookups s"
  by (auto simp: lookups_def lookupEvent_def readInput_def getDouble_def mex_bind_def emit_def
      mexErrMsgTxt_def mex_return_def split: sum.splits)

lemma deltaTArgument_lookups: "deltaTArgument E prhs s = (r, s') \<Longrightarrow> lookups s' = lookups s"
  by (auto simp: lookups_def lookupEvent_def deltaTArgument_def readInput_def getDouble_def
      mex_bind_def emit_def mexErrMsgTxt_def mex_return_def split: sum.splits if_splits)

lemma clockLocation_lookups: "clockLocation E prhs s = (r, s') \<Longrightarrow> lookups s' = lookups s"
  by (auto simp: lookups_def lookupEvent_def clockLocation_def mex_bind_def emit_def
      mexErrMsgTxt_def Let_def divideElement_def mex_return_def split: option.splits if_splits)

lemma loopBody_supplied_lookups:
  "loopBody E TDB1 TDB2 False elon u v vars s = (r, s') \<Longrightarrow> lookups s' = lookups s"
  by (cases vars)
    (auto simp: lookups_def lookupEvent_def loopBody_def mex_bind_def extern_def emit_def
      mexErrMsgTxt_def mex_return_def mexWarnMsgTxt_def split: prod.splits if_splits)

lemma mexFunction_supplied_lookups:
  assumes "2 < length prhs" "\<not> mxIsEmpty (store s (prhs ! 2))"
  shows "lookups (snd (mexFunction E nlhs prhs s)) = lookups s"
proof (cases "length prhs < 2 \<or> 4 < length prhs \<or> 2 < nlhs")
  case True
  then show ?thesis by (simp add: mexFunction_usage)
next
  case False
  then have valid: "\<not> (length prhs < 2 \<or> 4 < length prhs)" "\<not> 2 < nlhs" by auto
  obtain r s' where run: "mexFunction E nlhs prhs s = (r, s')"
    by (cases "mexFunction E nlhs prhs s")
  have supplied: "\<not> iterateDeltaT"
    if "readInput E prhs 0 s = (Done TDB1, s1)" "readInput E prhs 1 s1 = (Done TDB2, s2)"
      "deltaTArgument E prhs s2 = (Done (iterateDeltaT, d0), s3)"
    for TDB1 s1 TDB2 s2 iterateDeltaT d0 s3
    using deltaTArgument_supplied [of prhs s2 E iterateDeltaT d0 s3] assms
      readInput_frame [OF that(1)] readInput_frame [OF that(2)] that(3) by simp
  from valid run have "lookups s' = lookups s"
  proof (cases rule: mexFunction_runs)
    case (Abort0 msg)
    then show ?thesis using readInput_lookups by blast
  next
    case (Abort1 TDB1 s1 msg)
    then show ?thesis using readInput_lookups by metis
  next
    case (Abort2 TDB1 s1 TDB2 s2 msg)
    then show ?thesis using readInput_lookups deltaTArgument_lookups by metis
  next
    case (Abort3 TDB1 s1 TDB2 s2 iterateDeltaT d0 s3 msg)
    then show ?thesis
      using readInput_lookups deltaTArgument_lookups clockLocation_lookups by metis
  next
    case (AbortLoop1 TDB1 s1 TDB2 s2 iterateDeltaT d0 s3 u v elon s4 msg)
    from supplied [OF AbortLoop1(1,2,3)] AbortLoop1(5)
    have "lookups s' = lookups s4" using loopBody_supplied_lookups by simp
    with AbortLoop1(1-4) show ?thesis
      using readInput_lookups deltaTArgument_lookups clockLocation_lookups by metis
  next
    case (AbortLoop2 TDB1 s1 TDB2 s2 iterateDeltaT d0 s3 u v elon s4 vars1 s5 msg)
    from supplied [OF AbortLoop2(1,2,3)] AbortLoop2(5,6)
    have "lookups s' = lookups s4" using loopBody_supplied_lookups by simp
    with AbortLoop2(1-4) show ?thesis
      using readInput_lookups deltaTArgument_lookups clockLocation_lookups by metis
  next
    case (Done TDB1 s1 TDB2 s2 iterateDeltaT d0 s3 u v elon s4 vars1 s5 TT1 TT2 d s6)
    from supplied [OF Done(1,2,3)] Done(5,6)
    have "lookups s6 = lookups s4" using loopBody_supplied_lookups by simp
    moreover have "lookups s' = lookups s6" using Done(8) by (simp add: lookups_def)
    ultimately show ?thesis using Done(1-4)
      using readInput_lookups deltaTArgument_lookups clockLocation_lookups by metis
  qed
  with run show ?thesis by simp
qed

subsection \<open>The clock location\<close>

lemma clockLocation_supplied:
  assumes "3 < length prhs" "mxM (store s (prhs ! 3)) = 3" "mxN (store s (prhs ! 3)) = 1"
      and "checkRealDoubleArray E (store s (prhs ! 3)) = None"
      and "mxData (store s (prhs ! 3)) = [x, y, z]"
  shows "clockLocation E prhs s =
     (Done (sqrt (x / 1000 * (x / 1000) + y / 1000 * (y / 1000)), z / 1000,
            atan2 (y / 1000) (x / 1000)),
      s\<lparr>trace := trace s @ [ReadInput 3],
        store := (store s)(prhs ! 3 := (store s (prhs ! 3))\<lparr>mxData := [x / 1000, y / 1000, z / 1000]\<rparr>)\<rparr>)"
  using assms
  by (simp add: clockLocation_def mxIsEmpty_def mex_bind_def emit_def Let_def divideElement_def)

lemma atan2_scale: "0 < c \<Longrightarrow> atan2 (y / c) (x / c) = atan2 y x"
  by (simp add: atan2_def zero_less_divide_iff divide_less_0_iff zero_le_divide_iff)

lemma sqrt_scale: "sqrt ((x / 1000)\<^sup>2 + (y / 1000)\<^sup>2) = sqrt (x\<^sup>2 + y\<^sup>2) / 1000"
proof -
  have "(x / 1000)\<^sup>2 + (y / 1000)\<^sup>2 = (x\<^sup>2 + y\<^sup>2) / 1000\<^sup>2"
    by (simp add: power_divide add_divide_distrib)
  then have "sqrt ((x / 1000)\<^sup>2 + (y / 1000)\<^sup>2) = sqrt (x\<^sup>2 + y\<^sup>2) / sqrt (1000\<^sup>2)"
    by (simp only: real_sqrt_divide)
  also have "sqrt (1000\<^sup>2) = (1000::real)"
    by simp
  finally show ?thesis .
qed


lemma sqrt_25: "sqrt 25 = 5"
  using real_sqrt_abs [of 5] by simp

lemma readInput_readable:
  "getDoubleFromMatlab E (store s (prhs ! i)) = Inr x \<Longrightarrow>
     readInput E prhs i s = (Done x, s\<lparr>trace := trace s @ [ReadInput i]\<rparr>)"
  by (simp add: readInput_def getDouble_def mex_bind_def emit_def mex_return_def)

lemma deltaTArgument_readable:
  "mxIsEmpty (store s (prhs ! 2)) \<or> getDoubleFromMatlab E (store s (prhs ! 2)) = Inr d \<Longrightarrow>
     \<exists>r s'. deltaTArgument E prhs s = (Done r, s')"
  by (auto simp: deltaTArgument_def readInput_def getDouble_def mex_bind_def emit_def mex_return_def)

text \<open>
  The angle function is the polar angle: with the radius it gives the point back, and it
  lies in the half-open interval from \<open>-\<pi>\<close> to \<open>\<pi>\<close>.
\<close>

lemma polar_pos:
  assumes "0 < x"
  shows "sqrt (x\<^sup>2 + y\<^sup>2) * cos (arctan (y / x)) = x"
    and "sqrt (x\<^sup>2 + y\<^sup>2) * sin (arctan (y / x)) = y"
proof -
  have r: "sqrt (1 + (y / x)\<^sup>2) = sqrt (x\<^sup>2 + y\<^sup>2) / x"
  proof -
    have "1 + (y / x)\<^sup>2 = (x\<^sup>2 + y\<^sup>2) / x\<^sup>2"
      using assms by (simp add: power_divide add_divide_distrib)
    then have "sqrt (1 + (y / x)\<^sup>2) = sqrt (x\<^sup>2 + y\<^sup>2) / sqrt (x\<^sup>2)"
      by (simp only: real_sqrt_divide)
    with assms show ?thesis by simp
  qed
  have pos: "0 < sqrt (x\<^sup>2 + y\<^sup>2)"
    using assms by (simp add: sum_power2_gt_zero_iff)
  show "sqrt (x\<^sup>2 + y\<^sup>2) * cos (arctan (y / x)) = x"
    using assms pos by (simp add: cos_arctan r)
  show "sqrt (x\<^sup>2 + y\<^sup>2) * sin (arctan (y / x)) = y"
    using assms pos by (simp add: sin_arctan r)
qed

lemma polar_neg:
  assumes "x < 0"
  shows "sqrt (x\<^sup>2 + y\<^sup>2) * cos (arctan (y / x)) = - x"
    and "sqrt (x\<^sup>2 + y\<^sup>2) * sin (arctan (y / x)) = - y"
  using polar_pos [of "- x" "- y"] assms by simp_all

lemma atan2_polar:
  "sqrt (x\<^sup>2 + y\<^sup>2) * cos (atan2 y x) = x \<and> sqrt (x\<^sup>2 + y\<^sup>2) * sin (atan2 y x) = y"
proof -
  consider "0 < x" | "x < 0" | "x = 0" by linarith
  then show ?thesis
  proof cases
    case 1
    then show ?thesis by (simp add: atan2_def polar_pos)
  next
    case 2
    then show ?thesis by (simp add: atan2_def polar_neg cos_diff sin_diff cos_add sin_add)
  next
    case 3
    then show ?thesis by (simp add: atan2_def)
  qed
qed

lemma atan2_range: "- pi < atan2 y x \<and> atan2 y x \<le> pi"
proof -
  have bounds: "- (pi / 2) < arctan (y / x)" "arctan (y / x) < pi / 2"
    by (rule arctan_lbound, rule arctan_ubound)
  have neg: "0 < arctan (y / x)" if "x < 0" "y < 0"
    using that by (simp add: zero_less_divide_iff)
  have pos: "arctan (y / x) \<le> 0" if "x < 0" "0 \<le> y"
    using that by (simp add: divide_le_0_iff)
  consider "0 < x" | "x < 0" "0 \<le> y" | "x < 0" "y < 0" | "x = 0" by linarith
  then show ?thesis
  proof cases
    case 1
    then have "atan2 y x = arctan (y / x)" by (simp add: atan2_def)
    with bounds pi_gt_zero show ?thesis by linarith
  next
    case 2
    then have "atan2 y x = arctan (y / x) + pi" by (simp add: atan2_def)
    with bounds pos [OF 2] pi_gt_zero show ?thesis by linarith
  next
    case 3
    then have "atan2 y x = arctan (y / x) - pi" by (simp add: atan2_def)
    with bounds neg [OF 3] pi_gt_zero show ?thesis by linarith
  next
    case 4
    then have "atan2 y x = pi / 2 \<or> atan2 y x = - (pi / 2) \<or> atan2 y x = 0"
      by (simp add: atan2_def)
    with pi_gt_zero show ?thesis by linarith
  qed
qed


section \<open>The claims\<close>

subsection \<open>C1: two refinements of the TT estimate\<close>

text \<open>
  C1. For every call: once the argument counts are accepted and the arguments read, the
  converter does what section 4.1 of the specification describes. The TT estimate starts
  as the TDB split date; the refinement step is performed exactly twice, the second time
  on the result of the first; each step takes the offset TT-UT1 (the supplied one, or the
  one looked up at the current TT estimate), converts the TT estimate to UT1 with
  \<^verbatim>\<open>iauTtut1\<close>, takes the fractional day of the full UT1 date, computes the correction
  with \<^verbatim>\<open>iauDtdb\<close> from the original TDB date, that fraction and the clock's longitude,
  radius and height, and applies \<^verbatim>\<open>iauTdbtt\<close> to the original TDB date; the estimate
  after the second step is what is written to the outputs. A fatal error in a step ends
  the call there.
\<close>

theorem mexFunction_two_refinements:
  "mexFunction E nlhs prhs =
     (if length prhs < 2 \<or> 4 < length prhs then mexErrMsgTxt ''Wrong number of inputs.''
      else if 2 < nlhs then mexErrMsgTxt ''Wrong number of outputs.''
      else
        mex_bind (readInput E prhs 0) (\<lambda>TDB1.
        mex_bind (readInput E prhs 1) (\<lambda>TDB2.
        mex_bind (deltaTArgument E prhs) (\<lambda>(iterateDeltaT, deltaTTUT1).
        mex_bind (clockLocation E prhs) (\<lambda>(u, v, elon).
        mex_bind (spec_TDB2TT E TDB1 TDB2
                    (if iterateDeltaT then None else Some deltaTTUT1) elon u v) (\<lambda>(TT1, TT2).
        mex_bind (setOutput 0 (doubleMat2Matlab E TT1)) (\<lambda>_.
        if nlhs > 1 then setOutput 1 (doubleMat2Matlab E TT2) else mex_return ())))))))"
proof -
  have loop: "mex_bind (iterate E TDB1 TDB2 iterateDeltaT elon u v 0 (TDB1, TDB2, d0))
        (\<lambda>(TT1, TT2, deltaTTUT1). K TT1 TT2)
      = mex_bind (spec_TDB2TT E TDB1 TDB2 (if iterateDeltaT then None else Some d0) elon u v)
        (\<lambda>(TT1, TT2). K TT1 TT2)"
    for TDB1 TDB2 iterateDeltaT elon u v d0 and K :: "real \<Rightarrow> real \<Rightarrow> unit mex"
  proof
    fix s
    show "mex_bind (iterate E TDB1 TDB2 iterateDeltaT elon u v 0 (TDB1, TDB2, d0))
        (\<lambda>(TT1, TT2, deltaTTUT1). K TT1 TT2) s
      = mex_bind (spec_TDB2TT E TDB1 TDB2 (if iterateDeltaT then None else Some d0) elon u v)
        (\<lambda>(TT1, TT2). K TT1 TT2) s"
      using iterate_refines [of E TDB1 TDB2 iterateDeltaT elon u v d0 s]
      by (auto simp: mex_bind_def split: prod.splits result.splits)
  qed
  show ?thesis
    unfolding mexFunction_def Let_def loop by (simp add: case_prod_unfold)
qed

theorem mexFunction_two_refinements_witness:
  "mexFunction stubEnv 2 [0, 1] (workspace [scalar 2451545, scalar (3/4)]) =
     (Done (),
      \<lparr>store = store (workspace [scalar 2451545, scalar (3/4)]),
       plhs = [0 \<mapsto> scalar 2451545,
               1 \<mapsto> scalar (3/4 - (3/4 - (3/4 - 69/86400) / 1000 / 86400 - 69/86400) / 1000 / 86400)],
       trace = [ReadInput 0, ReadInput 1,
         Call ''iauTttai'' [2451545, 3/4],
         Call ''iauTaiutc'' [2451545, 3/4],
         Call ''getEOP'' [2451545, 3/4],
         Call ''iauTtut1'' [2451545, 3/4, 69],
         Call ''iauDtdb'' [2451545, 3/4, 3/4 - 69/86400, 0, 0, 0],
         Call ''iauTdbtt'' [2451545, 3/4, (3/4 - 69/86400) / 1000],
         Call ''iauTttai'' [2451545, 3/4 - (3/4 - 69/86400) / 1000 / 86400],
         Call ''iauTaiutc'' [2451545, 3/4 - (3/4 - 69/86400) / 1000 / 86400],
         Call ''getEOP'' [2451545, 3/4 - (3/4 - 69/86400) / 1000 / 86400],
         Call ''iauTtut1'' [2451545, 3/4 - (3/4 - 69/86400) / 1000 / 86400, 69],
         Call ''iauDtdb'' [2451545, 3/4,
            3/4 - (3/4 - 69/86400) / 1000 / 86400 - 69/86400, 0, 0, 0],
         Call ''iauTdbtt'' [2451545, 3/4,
            (3/4 - (3/4 - 69/86400) / 1000 / 86400 - 69/86400) / 1000]]\<rparr>)"
proof -
  have "mexFunction stubEnv 2 [0, 1] (workspace [scalar 2451545, scalar (3/4)]) =
    mex_bind (readInput stubEnv [0, 1] 0) (\<lambda>TDB1.
        mex_bind (readInput stubEnv [0, 1] 1) (\<lambda>TDB2.
        mex_bind (deltaTArgument stubEnv [0, 1]) (\<lambda>(iterateDeltaT, deltaTTUT1).
        mex_bind (clockLocation stubEnv [0, 1]) (\<lambda>(u, v, elon).
        mex_bind (spec_TDB2TT stubEnv TDB1 TDB2
                    (if iterateDeltaT then None else Some deltaTTUT1) elon u v) (\<lambda>(TT1, TT2).
        mex_bind (setOutput 0 (doubleMat2Matlab stubEnv TT1)) (\<lambda>_.
        setOutput 1 (doubleMat2Matlab stubEnv TT2)))))))
      (workspace [scalar 2451545, scalar (3/4)])"
    by (subst mexFunction_two_refinements) simp
  then show ?thesis
    by (simp add: run_defs stub_defs spec_TDB2TT_def spec_refine_def spec_offset_def
        spec_toUT1_def spec_applyCorrection_def frac_def getDeltaTFromEOP_def
        mexCallMATLAB_getEOP_def)
qed

subsection \<open>C2: a supplied offset makes the Earth-orientation source irrelevant\<close>

text \<open>
  C2. For every call in which a non-empty \<open>deltaTTUT1\<close> argument is supplied, the outcome
  (the result, the outputs, the workspace, the warnings) does not depend on the
  Earth-orientation source: two runs that differ only in what \<^verbatim>\<open>getEOP\<close> does end the
  same way, and the call adds no event of the lookup to the trace, that is,
  \<^verbatim>\<open>getDeltaTFromEOP\<close> is never entered.
\<close>

theorem supplied_deltaT_ignores_getEOP:
  assumes "2 < length prhs" "\<not> mxIsEmpty (store s (prhs ! 2))"
  shows "mexFunction (E\<lparr>getEOP := g\<rparr>) nlhs prhs s = mexFunction (E\<lparr>getEOP := g'\<rparr>) nlhs prhs s
       \<and> lookups (snd (mexFunction (E\<lparr>getEOP := g\<rparr>) nlhs prhs s)) = lookups s"
  using mexFunction_getEOP [OF assms, where E = E and g = g and nlhs = nlhs]
    mexFunction_getEOP [OF assms, where E = E and g = g' and nlhs = nlhs]
    mexFunction_supplied_lookups [OF assms, where E = "E\<lparr>getEOP := g\<rparr>" and nlhs = nlhs]
  by simp

theorem supplied_deltaT_ignores_getEOP_witness:
  "mexFunction (stubEnv\<lparr>getEOP := \<lambda>a b. Inl ''no data''\<rparr>) 2 [0, 1, 2]
       (workspace [scalar 2451545, scalar (3/4), scalar 69])
     = mexFunction (stubEnv\<lparr>getEOP := \<lambda>a b. Inr (a, a, a, scalar 70)\<rparr>) 2 [0, 1, 2]
       (workspace [scalar 2451545, scalar (3/4), scalar 69])
   \<and> lookups (snd (mexFunction (stubEnv\<lparr>getEOP := \<lambda>a b. Inl ''no data''\<rparr>) 2 [0, 1, 2]
       (workspace [scalar 2451545, scalar (3/4), scalar 69])))
     = lookups (workspace [scalar 2451545, scalar (3/4), scalar 69])"
proof -
  have supplied: "2 < length [0, 1, 2 :: nat]"
    "\<not> mxIsEmpty (store (workspace [scalar 2451545, scalar (3/4), scalar 69]) ([0, 1, 2] ! 2))"
    by (simp_all add: workspace_def scalar_def mxIsEmpty_def)
  show ?thesis
    by (rule supplied_deltaT_ignores_getEOP [OF supplied])
qed

text \<open>
  Without the third argument the source does matter: the same call fails with one
  \<^verbatim>\<open>getEOP\<close> and returns with another.
\<close>

lemma lookup_mode_depends_on_getEOP:
  "fst (mexFunction (stubEnv\<lparr>getEOP := \<lambda>a b. Inl ''no data''\<rparr>) 2 [0, 1]
       (workspace [scalar 2451545, scalar (3/4)])) = Abort ''no data''
   \<and> fst (mexFunction stubEnv 2 [0, 1] (workspace [scalar 2451545, scalar (3/4)])) = Done ()"
  by (simp add: loop_defs run_defs stub_defs)

subsection \<open>C3: the statuses inside an iteration\<close>

text \<open>
  One pass of the loop body, once the offset \<open>d\<close> is at hand.
\<close>

lemma loopBody_outcomes:
  assumes "(if iterateDeltaT then getDeltaTFromEOP E TT1 TT2 else mex_return d0) s = (Done d, s1)"
      and "iauTtut1 E TT1 TT2 d = (j, Jul1UT1, Jul2UT1)"
      and "iauDtdb E TDB1 TDB2 (ut1Fraction Jul1UT1 Jul2UT1) elon u v = deltaT"
      and "iauTdbtt E TDB1 TDB2 deltaT = (k, TT1', TT2')"
  shows "(j = - 1 \<longrightarrow> loopBody E TDB1 TDB2 iterateDeltaT elon u v (TT1, TT2, d0) s =
            (Abort ''Unacceptable date provided.'',
             s1\<lparr>trace := trace s1 @ [Call ''iauTtut1'' [TT1, TT2, d]]\<rparr>))
       \<and> (j = 1 \<and> k = 0 \<longrightarrow> loopBody E TDB1 TDB2 iterateDeltaT elon u v (TT1, TT2, d0) s =
            (Done (TT1', TT2', d),
             s1\<lparr>trace := trace s1 @ [Call ''iauTtut1'' [TT1, TT2, d],
                Warning ''Dubious year provided\<newline>'',
                Call ''iauDtdb'' [TDB1, TDB2, ut1Fraction Jul1UT1 Jul2UT1, elon, u, v],
                Call ''iauTdbtt'' [TDB1, TDB2, deltaT]]\<rparr>))
       \<and> (j \<noteq> - 1 \<and> j \<noteq> 1 \<and> k = 0 \<longrightarrow> loopBody E TDB1 TDB2 iterateDeltaT elon u v (TT1, TT2, d0) s =
            (Done (TT1', TT2', d),
             s1\<lparr>trace := trace s1 @ [Call ''iauTtut1'' [TT1, TT2, d],
                Call ''iauDtdb'' [TDB1, TDB2, ut1Fraction Jul1UT1 Jul2UT1, elon, u, v],
                Call ''iauTdbtt'' [TDB1, TDB2, deltaT]]\<rparr>))
       \<and> (j \<noteq> - 1 \<and> k \<noteq> 0 \<longrightarrow> loopBody E TDB1 TDB2 iterateDeltaT elon u v (TT1, TT2, d0) s =
            (Abort ''An error occured during an intermediate conversion to TDB.\<newline>'',
             s1\<lparr>trace := trace s1 @ [Call ''iauTtut1'' [TT1, TT2, d]]
                @ (if j = 1 then [Warning ''Dubious year provided\<newline>''] else [])
                @ [Call ''iauDtdb'' [TDB1, TDB2, ut1Fraction Jul1UT1 Jul2UT1, elon, u, v],
                   Call ''iauTdbtt'' [TDB1, TDB2, deltaT]]\<rparr>))"
  using assms
  by (auto simp: loopBody_def mex_bind_def extern_def emit_def mexErrMsgTxt_def
      mex_return_def mexWarnMsgTxt_def split: prod.splits)

text \<open>
  A call whose argument counts are accepted and whose arguments are read is the loop body
  run twice, followed by the assignment of the outputs.
\<close>

lemma mexFunction_after_arguments:
  assumes "2 \<le> length prhs" "length prhs \<le> 4" "nlhs \<le> 2"
      and "readInput E prhs 0 s = (Done TDB1, s1)"
      and "readInput E prhs 1 s1 = (Done TDB2, s2)"
      and "deltaTArgument E prhs s2 = (Done (iterateDeltaT, d0), s3)"
      and "clockLocation E prhs s3 = (Done (u, v, elon), s4)"
  shows "mexFunction E nlhs prhs s =
     mex_bind (loopBody E TDB1 TDB2 iterateDeltaT elon u v (TDB1, TDB2, d0)) (\<lambda>vars1.
     mex_bind (loopBody E TDB1 TDB2 iterateDeltaT elon u v vars1) (\<lambda>(TT1, TT2, deltaTTUT1).
     mex_bind (setOutput 0 (doubleMat2Matlab E TT1)) (\<lambda>_.
     if nlhs > 1 then setOutput 1 (doubleMat2Matlab E TT2) else mex_return ()))) s4"
proof -
  have valid: "\<not> (length prhs < 2 \<or> 4 < length prhs)" "\<not> 2 < nlhs"
    using assms(1-3) by auto
  show ?thesis
    unfolding mexFunction_valid [OF valid]
    using assms(4-7)
    by (simp add: mex_bind_def iterate_unrolled split: prod.splits result.splits)
qed

text \<open>
  C3. Take a call whose argument counts are accepted and whose arguments are read, and
  either iteration of its loop: the first (\<open>curIter = 0\<close>), which starts from the TDB date,
  or the second (\<open>curIter = 1\<close>), which starts from the estimate the first one returned.
  Let \<open>d\<close> be the offset of that iteration (supplied, or looked up without error), \<open>j\<close> the
  status of \<^verbatim>\<open>iauTtut1\<close> and \<open>k\<close> the status of \<^verbatim>\<open>iauTdbtt\<close> in it. If \<open>j\<close> is -1 the
  call aborts with the message "Unacceptable date provided.". If \<open>k\<close> is not 0 the call
  aborts with the message of the intermediate conversion. Otherwise the computation
  continues, with the warning "Dubious year provided" in the trace exactly when \<open>j\<close> is 1:
  after the first iteration the call is the second iteration on the new estimate followed
  by the outputs, and after the second iteration the call returns with the new estimate
  in \<open>plhs\<close>.
\<close>

theorem mexFunction_status_handling:
  assumes "2 \<le> length prhs" "length prhs \<le> 4" "nlhs \<le> 2"
      and "readInput E prhs 0 s = (Done TDB1, s1)"
      and "readInput E prhs 1 s1 = (Done TDB2, s2)"
      and "deltaTArgument E prhs s2 = (Done (iterateDeltaT, d0), s3)"
      and "clockLocation E prhs s3 = (Done (u, v, elon), s4)"
      and "(curIter = (0::int) \<and> (TT1, TT2, dc) = (TDB1, TDB2, d0) \<and> sa = s4)
         \<or> (curIter = 1 \<and> loopBody E TDB1 TDB2 iterateDeltaT elon u v (TDB1, TDB2, d0) s4
               = (Done (TT1, TT2, dc), sa))"
      and "(if iterateDeltaT then getDeltaTFromEOP E TT1 TT2 else mex_return dc) sa = (Done d, sb)"
      and "iauTtut1 E TT1 TT2 d = (j, Jul1UT1, Jul2UT1)"
      and "iauDtdb E TDB1 TDB2 (ut1Fraction Jul1UT1 Jul2UT1) elon u v = deltaT"
      and "iauTdbtt E TDB1 TDB2 deltaT = (k, TT1', TT2')"
  shows "(j = - 1 \<longrightarrow> mexFunction E nlhs prhs s =
            (Abort ''Unacceptable date provided.'',
             sb\<lparr>trace := trace sb @ [Call ''iauTtut1'' [TT1, TT2, d]]\<rparr>))
       \<and> (j \<noteq> - 1 \<and> k \<noteq> 0 \<longrightarrow> mexFunction E nlhs prhs s =
            (Abort ''An error occured during an intermediate conversion to TDB.\<newline>'',
             sb\<lparr>trace := trace sb @ [Call ''iauTtut1'' [TT1, TT2, d]]
                @ (if j = 1 then [Warning ''Dubious year provided\<newline>''] else [])
                @ [Call ''iauDtdb'' [TDB1, TDB2, ut1Fraction Jul1UT1 Jul2UT1, elon, u, v],
                   Call ''iauTdbtt'' [TDB1, TDB2, deltaT]]\<rparr>))
       \<and> (j \<noteq> - 1 \<and> k = 0 \<and> curIter = 0 \<longrightarrow> mexFunction E nlhs prhs s =
            mex_bind (loopBody E TDB1 TDB2 iterateDeltaT elon u v (TT1', TT2', d))
              (\<lambda>(TT1, TT2, deltaTTUT1).
                 mex_bind (setOutput 0 (doubleMat2Matlab E TT1)) (\<lambda>_.
                 if nlhs > 1 then setOutput 1 (doubleMat2Matlab E TT2) else mex_return ()))
              (sb\<lparr>trace := trace sb @ [Call ''iauTtut1'' [TT1, TT2, d]]
                @ (if j = 1 then [Warning ''Dubious year provided\<newline>''] else [])
                @ [Call ''iauDtdb'' [TDB1, TDB2, ut1Fraction Jul1UT1 Jul2UT1, elon, u, v],
                   Call ''iauTdbtt'' [TDB1, TDB2, deltaT]]\<rparr>))
       \<and> (j \<noteq> - 1 \<and> k = 0 \<and> curIter = 1 \<longrightarrow> mexFunction E nlhs prhs s =
            (Done (),
             sb\<lparr>trace := trace sb @ [Call ''iauTtut1'' [TT1, TT2, d]]
                @ (if j = 1 then [Warning ''Dubious year provided\<newline>''] else [])
                @ [Call ''iauDtdb'' [TDB1, TDB2, ut1Fraction Jul1UT1 Jul2UT1, elon, u, v],
                   Call ''iauTdbtt'' [TDB1, TDB2, deltaT]],
                plhs := (if 1 < nlhs
                   then (plhs sb)(0 \<mapsto> doubleMat2Matlab E TT1', 1 \<mapsto> doubleMat2Matlab E TT2')
                   else (plhs sb)(0 \<mapsto> doubleMat2Matlab E TT1'))\<rparr>))"
proof -
  note call = mexFunction_after_arguments [OF assms(1-7)]
  note body = loopBody_outcomes [OF assms(9-12)]
  from assms(8) show ?thesis
  proof
    assume first: "curIter = 0 \<and> (TT1, TT2, dc) = (TDB1, TDB2, d0) \<and> sa = s4"
    then have eq: "TT1 = TDB1" "TT2 = TDB2" "dc = d0" "sa = s4" "curIter = 0" by auto
    show ?thesis
      using body unfolding call eq
      by (auto simp: mex_bind_def)
  next
    assume second: "curIter = 1 \<and> loopBody E TDB1 TDB2 iterateDeltaT elon u v (TDB1, TDB2, d0) s4
               = (Done (TT1, TT2, dc), sa)"
    then show ?thesis
      using body unfolding call
      by (auto simp: mex_bind_def setOutput_def mex_return_def)
  qed
qed


theorem mexFunction_status_handling_witness:
  "mexFunction stubEnv 2 [0, 1, 2] (workspace [scalar 3000001, scalar (1/2), scalar 0]) =
     (Done (),
      \<lparr>store = store (workspace [scalar 3000001, scalar (1/2), scalar 0]),
       plhs = [0 \<mapsto> scalar 3000001,
               1 \<mapsto> scalar (1/2 - (1/2 - 1/2000/86400) / 1000 / 86400)],
       trace = [ReadInput 0, ReadInput 1, ReadInput 2,
         Call ''iauTtut1'' [3000001, 1/2, 0],
         Warning ''Dubious year provided\<newline>'',
         Call ''iauDtdb'' [3000001, 1/2, 1/2, 0, 0, 0],
         Call ''iauTdbtt'' [3000001, 1/2, 1/2000],
         Call ''iauTtut1'' [3000001, 1/2 - 1/2000/86400, 0],
         Warning ''Dubious year provided\<newline>'',
         Call ''iauDtdb'' [3000001, 1/2, 1/2 - 1/2000/86400, 0, 0, 0],
         Call ''iauTdbtt'' [3000001, 1/2, (1/2 - 1/2000/86400) / 1000]]\<rparr>)
   \<and> mexFunction stubEnv 2 [0, 1, 2] (workspace [scalar (- 1), scalar 0, scalar 0]) =
     (Abort ''Unacceptable date provided.'',
      (workspace [scalar (- 1), scalar 0, scalar 0])\<lparr>trace := [ReadInput 0, ReadInput 1,
         ReadInput 2, Call ''iauTtut1'' [- 1, 0, 0]]\<rparr>)
   \<and> mexFunction stubEnv 2 [0, 1, 2, 3]
       (workspace [scalar 2451545, scalar (3/4), scalar 0, columnVector [3000, 4000, 5000]]) =
     (Abort ''An error occured during an intermediate conversion to TDB.\<newline>'',
      \<lparr>store = (store (workspace [scalar 2451545, scalar (3/4), scalar 0,
                 columnVector [3000, 4000, 5000]]))(3 := columnVector [3, 4, 5]),
       plhs = Map.empty,
       trace = [ReadInput 0, ReadInput 1, ReadInput 2, ReadInput 3,
         Call ''iauTtut1'' [2451545, 3/4, 0],
         Call ''iauDtdb'' [2451545, 3/4, 3/4, arctan (4/3), 5, 5],
         Call ''iauTdbtt'' [2451545, 3/4, 3/4000 + 5]]\<rparr>)"
proof -
  have dubious:
    "(2::nat) \<le> length [0, 1, 2]"
    "length [0, 1, 2] \<le> (4::nat)"
    "(2::int) \<le> 2"
    "readInput stubEnv [0, 1, 2] 0 (workspace [scalar 3000001, scalar (1/2), scalar 0]) = (Done (3000001), (workspace [scalar 3000001, scalar (1/2), scalar 0])\<lparr>trace := [ReadInput 0]\<rparr>)"
    "readInput stubEnv [0, 1, 2] 1 ((workspace [scalar 3000001, scalar (1/2), scalar 0])\<lparr>trace := [ReadInput 0]\<rparr>) = (Done (1/2), (workspace [scalar 3000001, scalar (1/2), scalar 0])\<lparr>trace := [ReadInput 0, ReadInput 1]\<rparr>)"
    "deltaTArgument stubEnv [0, 1, 2] ((workspace [scalar 3000001, scalar (1/2), scalar 0])\<lparr>trace := [ReadInput 0, ReadInput 1]\<rparr>) = (Done (False, 0), (workspace [scalar 3000001, scalar (1/2), scalar 0])\<lparr>trace := [ReadInput 0, ReadInput 1, ReadInput 2]\<rparr>)"
    "clockLocation stubEnv [0, 1, 2] ((workspace [scalar 3000001, scalar (1/2), scalar 0])\<lparr>trace := [ReadInput 0, ReadInput 1, ReadInput 2]\<rparr>) = (Done (0, 0, 0), (workspace [scalar 3000001, scalar (1/2), scalar 0])\<lparr>trace := [ReadInput 0, ReadInput 1, ReadInput 2]\<rparr>)"
    "((1::int) = 0 \<and> (3000001, 1/2 - 1/2000/86400, 0) = (3000001, 1/2, 0::real) \<and> (workspace [scalar 3000001, scalar (1/2), scalar 0])\<lparr>trace := [ReadInput 0, ReadInput 1, ReadInput 2, Call ''iauTtut1'' [3000001, 1/2, 0], Warning ''Dubious year provided\<newline>'', Call ''iauDtdb'' [3000001, 1/2, 1/2, 0, 0, 0], Call ''iauTdbtt'' [3000001, 1/2, 1/2000]]\<rparr> = (workspace [scalar 3000001, scalar (1/2), scalar 0])\<lparr>trace := [ReadInput 0, ReadInput 1, ReadInput 2]\<rparr>)
       \<or> ((1::int) = 1 \<and> loopBody stubEnv 3000001 (1/2) False 0 0 0 (3000001, 1/2, 0) ((workspace [scalar 3000001, scalar (1/2), scalar 0])\<lparr>trace := [ReadInput 0, ReadInput 1, ReadInput 2]\<rparr>) = (Done (3000001, 1/2 - 1/2000/86400, 0), (workspace [scalar 3000001, scalar (1/2), scalar 0])\<lparr>trace := [ReadInput 0, ReadInput 1, ReadInput 2, Call ''iauTtut1'' [3000001, 1/2, 0], Warning ''Dubious year provided\<newline>'', Call ''iauDtdb'' [3000001, 1/2, 1/2, 0, 0, 0], Call ''iauTdbtt'' [3000001, 1/2, 1/2000]]\<rparr>))"
    "(if False then getDeltaTFromEOP stubEnv (3000001) (1/2 - 1/2000/86400) else mex_return 0) ((workspace [scalar 3000001, scalar (1/2), scalar 0])\<lparr>trace := [ReadInput 0, ReadInput 1, ReadInput 2, Call ''iauTtut1'' [3000001, 1/2, 0], Warning ''Dubious year provided\<newline>'', Call ''iauDtdb'' [3000001, 1/2, 1/2, 0, 0, 0], Call ''iauTdbtt'' [3000001, 1/2, 1/2000]]\<rparr>) = (Done 0, (workspace [scalar 3000001, scalar (1/2), scalar 0])\<lparr>trace := [ReadInput 0, ReadInput 1, ReadInput 2, Call ''iauTtut1'' [3000001, 1/2, 0], Warning ''Dubious year provided\<newline>'', Call ''iauDtdb'' [3000001, 1/2, 1/2, 0, 0, 0], Call ''iauTdbtt'' [3000001, 1/2, 1/2000]]\<rparr>)"
    "iauTtut1 stubEnv (3000001) (1/2 - 1/2000/86400) 0 = (1, 3000001, 1/2 - 1/2000/86400)"
    "iauDtdb stubEnv (3000001) (1/2) (ut1Fraction (3000001) (1/2 - 1/2000/86400)) (0) 0 0 = (1/2 - 1/2000/86400) / 1000"
    "iauTdbtt stubEnv (3000001) (1/2) ((1/2 - 1/2000/86400) / 1000) = (0, 3000001, 1/2 - (1/2 - 1/2000/86400) / 1000 / 86400)"
    by (simp_all add: loop_defs run_defs stub_defs divideElement_def atan2_def sqrt_25 fun_eq_iff)
  have unacceptable:
    "(2::nat) \<le> length [0, 1, 2]"
    "length [0, 1, 2] \<le> (4::nat)"
    "(2::int) \<le> 2"
    "readInput stubEnv [0, 1, 2] 0 (workspace [scalar (- 1), scalar 0, scalar 0]) = (Done (- 1), (workspace [scalar (- 1), scalar 0, scalar 0])\<lparr>trace := [ReadInput 0]\<rparr>)"
    "readInput stubEnv [0, 1, 2] 1 ((workspace [scalar (- 1), scalar 0, scalar 0])\<lparr>trace := [ReadInput 0]\<rparr>) = (Done (0), (workspace [scalar (- 1), scalar 0, scalar 0])\<lparr>trace := [ReadInput 0, ReadInput 1]\<rparr>)"
    "deltaTArgument stubEnv [0, 1, 2] ((workspace [scalar (- 1), scalar 0, scalar 0])\<lparr>trace := [ReadInput 0, ReadInput 1]\<rparr>) = (Done (False, 0), (workspace [scalar (- 1), scalar 0, scalar 0])\<lparr>trace := [ReadInput 0, ReadInput 1, ReadInput 2]\<rparr>)"
    "clockLocation stubEnv [0, 1, 2] ((workspace [scalar (- 1), scalar 0, scalar 0])\<lparr>trace := [ReadInput 0, ReadInput 1, ReadInput 2]\<rparr>) = (Done (0, 0, 0), (workspace [scalar (- 1), scalar 0, scalar 0])\<lparr>trace := [ReadInput 0, ReadInput 1, ReadInput 2]\<rparr>)"
    "((0::int) = 0 \<and> (- 1, 0, 0) = (- 1, 0, 0::real) \<and> (workspace [scalar (- 1), scalar 0, scalar 0])\<lparr>trace := [ReadInput 0, ReadInput 1, ReadInput 2]\<rparr> = (workspace [scalar (- 1), scalar 0, scalar 0])\<lparr>trace := [ReadInput 0, ReadInput 1, ReadInput 2]\<rparr>)
       \<or> ((0::int) = 1 \<and> loopBody stubEnv (- 1) 0 False 0 0 0 (- 1, 0, 0) ((workspace [scalar (- 1), scalar 0, scalar 0])\<lparr>trace := [ReadInput 0, ReadInput 1, ReadInput 2]\<rparr>) = (Done (- 1, 0, 0), (workspace [scalar (- 1), scalar 0, scalar 0])\<lparr>trace := [ReadInput 0, ReadInput 1, ReadInput 2]\<rparr>))"
    "(if False then getDeltaTFromEOP stubEnv (- 1) (0) else mex_return 0) ((workspace [scalar (- 1), scalar 0, scalar 0])\<lparr>trace := [ReadInput 0, ReadInput 1, ReadInput 2]\<rparr>) = (Done 0, (workspace [scalar (- 1), scalar 0, scalar 0])\<lparr>trace := [ReadInput 0, ReadInput 1, ReadInput 2]\<rparr>)"
    "iauTtut1 stubEnv (- 1) (0) 0 = (- 1, - 1, 0)"
    "iauDtdb stubEnv (- 1) (0) (ut1Fraction (- 1) (0)) (0) 0 0 = 0"
    "iauTdbtt stubEnv (- 1) (0) (0) = (0, - 1, 0)"
    by (simp_all add: loop_defs run_defs stub_defs divideElement_def atan2_def sqrt_25 fun_eq_iff)
  have refused:
    "(2::nat) \<le> length [0, 1, 2, 3]"
    "length [0, 1, 2, 3] \<le> (4::nat)"
    "(2::int) \<le> 2"
    "readInput stubEnv [0, 1, 2, 3] 0 (workspace [scalar 2451545, scalar (3/4), scalar 0, columnVector [3000, 4000, 5000]]) = (Done (2451545), (workspace [scalar 2451545, scalar (3/4), scalar 0, columnVector [3000, 4000, 5000]])\<lparr>trace := [ReadInput 0]\<rparr>)"
    "readInput stubEnv [0, 1, 2, 3] 1 ((workspace [scalar 2451545, scalar (3/4), scalar 0, columnVector [3000, 4000, 5000]])\<lparr>trace := [ReadInput 0]\<rparr>) = (Done (3/4), (workspace [scalar 2451545, scalar (3/4), scalar 0, columnVector [3000, 4000, 5000]])\<lparr>trace := [ReadInput 0, ReadInput 1]\<rparr>)"
    "deltaTArgument stubEnv [0, 1, 2, 3] ((workspace [scalar 2451545, scalar (3/4), scalar 0, columnVector [3000, 4000, 5000]])\<lparr>trace := [ReadInput 0, ReadInput 1]\<rparr>) = (Done (False, 0), (workspace [scalar 2451545, scalar (3/4), scalar 0, columnVector [3000, 4000, 5000]])\<lparr>trace := [ReadInput 0, ReadInput 1, ReadInput 2]\<rparr>)"
    "clockLocation stubEnv [0, 1, 2, 3] ((workspace [scalar 2451545, scalar (3/4), scalar 0, columnVector [3000, 4000, 5000]])\<lparr>trace := [ReadInput 0, ReadInput 1, ReadInput 2]\<rparr>) = (Done (5, 5, arctan (4/3)), \<lparr>store = (store (workspace [scalar 2451545, scalar (3/4), scalar 0, columnVector [3000, 4000, 5000]]))(3 := columnVector [3, 4, 5]), plhs = Map.empty, trace = [ReadInput 0, ReadInput 1, ReadInput 2, ReadInput 3]\<rparr>)"
    "((0::int) = 0 \<and> (2451545, 3/4, 0) = (2451545, 3/4, 0::real) \<and> \<lparr>store = (store (workspace [scalar 2451545, scalar (3/4), scalar 0, columnVector [3000, 4000, 5000]]))(3 := columnVector [3, 4, 5]), plhs = Map.empty, trace = [ReadInput 0, ReadInput 1, ReadInput 2, ReadInput 3]\<rparr> = \<lparr>store = (store (workspace [scalar 2451545, scalar (3/4), scalar 0, columnVector [3000, 4000, 5000]]))(3 := columnVector [3, 4, 5]), plhs = Map.empty, trace = [ReadInput 0, ReadInput 1, ReadInput 2, ReadInput 3]\<rparr>)
       \<or> ((0::int) = 1 \<and> loopBody stubEnv 2451545 (3/4) False (arctan (4/3)) 5 5 (2451545, 3/4, 0) (\<lparr>store = (store (workspace [scalar 2451545, scalar (3/4), scalar 0, columnVector [3000, 4000, 5000]]))(3 := columnVector [3, 4, 5]), plhs = Map.empty, trace = [ReadInput 0, ReadInput 1, ReadInput 2, ReadInput 3]\<rparr>) = (Done (2451545, 3/4, 0), \<lparr>store = (store (workspace [scalar 2451545, scalar (3/4), scalar 0, columnVector [3000, 4000, 5000]]))(3 := columnVector [3, 4, 5]), plhs = Map.empty, trace = [ReadInput 0, ReadInput 1, ReadInput 2, ReadInput 3]\<rparr>))"
    "(if False then getDeltaTFromEOP stubEnv (2451545) (3/4) else mex_return 0) (\<lparr>store = (store (workspace [scalar 2451545, scalar (3/4), scalar 0, columnVector [3000, 4000, 5000]]))(3 := columnVector [3, 4, 5]), plhs = Map.empty, trace = [ReadInput 0, ReadInput 1, ReadInput 2, ReadInput 3]\<rparr>) = (Done 0, \<lparr>store = (store (workspace [scalar 2451545, scalar (3/4), scalar 0, columnVector [3000, 4000, 5000]]))(3 := columnVector [3, 4, 5]), plhs = Map.empty, trace = [ReadInput 0, ReadInput 1, ReadInput 2, ReadInput 3]\<rparr>)"
    "iauTtut1 stubEnv (2451545) (3/4) 0 = (0, 2451545, 3/4)"
    "iauDtdb stubEnv (2451545) (3/4) (ut1Fraction (2451545) (3/4)) (arctan (4/3)) 5 5 = 3/4000 + 5"
    "iauTdbtt stubEnv (2451545) (3/4) (3/4000 + 5) = (1, 2451545, 3/4 - (3/4000 + 5) / 86400)"
    by (simp_all add: loop_defs run_defs stub_defs divideElement_def atan2_def sqrt_25 fun_eq_iff)
  show ?thesis
    using mexFunction_status_handling [OF dubious] mexFunction_status_handling [OF unacceptable]
      mexFunction_status_handling [OF refused]
    by (simp add: stub_defs fun_eq_iff ut1Fraction_def)
qed

subsection \<open>C4: outputs are written last\<close>

text \<open>
  C4. Every call either aborts, and then no output has been assigned (\<open>plhs\<close> is as it
  was at the start), or returns, and then both iterations of the loop have completed
  without a fatal error, the outputs were still untouched when the second one ended, and
  \<open>plhs[0]\<close> holds the final \<open>TT1\<close> and, when more than one output was requested,
  \<open>plhs[1]\<close> the final \<open>TT2\<close>. No partial result is returned.
\<close>

theorem outputs_only_after_both_iterations:
  "case mexFunction E nlhs prhs s of
     (Abort msg, s') \<Rightarrow> plhs s' = plhs s
   | (Done x, s') \<Rightarrow>
       (\<exists>TDB1 TDB2 iterateDeltaT elon u v vars0 s0 vars1 s1 TT1 TT2 d s2.
          loopBody E TDB1 TDB2 iterateDeltaT elon u v vars0 s0 = (Done vars1, s1)
        \<and> loopBody E TDB1 TDB2 iterateDeltaT elon u v vars1 s1 = (Done (TT1, TT2, d), s2)
        \<and> plhs s2 = plhs s
        \<and> s' = s2\<lparr>plhs :=
              (if 1 < nlhs
               then (plhs s)(0 \<mapsto> doubleMat2Matlab E TT1, 1 \<mapsto> doubleMat2Matlab E TT2)
               else (plhs s)(0 \<mapsto> doubleMat2Matlab E TT1))\<rparr>)"
proof (cases "length prhs < 2 \<or> 4 < length prhs \<or> 2 < nlhs")
  case True
  from mexFunction_usage [OF this] show ?thesis by simp
next
  case False
  then have valid: "\<not> (length prhs < 2 \<or> 4 < length prhs)" "\<not> 2 < nlhs" by auto
  obtain r s' where run: "mexFunction E nlhs prhs s = (r, s')"
    by (cases "mexFunction E nlhs prhs s")
  from valid run show ?thesis
  proof (cases rule: mexFunction_runs)
    case (Done TDB1 s1 TDB2 s2 iterateDeltaT d0 s3 u v elon s4 vars1 s5 TT1 TT2 d s6)
    have keep: "plhs s6 = plhs s"
      using readInput_frame [OF Done(1)] readInput_frame [OF Done(2)]
        deltaTArgument_frame [OF Done(3)] clockLocation_plhs [OF Done(4)]
        loopBody_frame [OF Done(5)] loopBody_frame [OF Done(6)] by simp
    have out: "s' = s6\<lparr>plhs :=
              (if 1 < nlhs
               then (plhs s)(0 \<mapsto> doubleMat2Matlab E TT1, 1 \<mapsto> doubleMat2Matlab E TT2)
               else (plhs s)(0 \<mapsto> doubleMat2Matlab E TT1))\<rparr>"
      using Done(8) unfolding keep .
    from Done(5,6) keep out
    have ex: "\<exists>TDB1 TDB2 iterateDeltaT elon u v vars0 s0 vars1 s1 TT1 TT2 d s2.
          loopBody E TDB1 TDB2 iterateDeltaT elon u v vars0 s0 = (Done vars1, s1)
        \<and> loopBody E TDB1 TDB2 iterateDeltaT elon u v vars1 s1 = (Done (TT1, TT2, d), s2)
        \<and> plhs s2 = plhs s
        \<and> s' = s2\<lparr>plhs :=
              (if 1 < nlhs
               then (plhs s)(0 \<mapsto> doubleMat2Matlab E TT1, 1 \<mapsto> doubleMat2Matlab E TT2)
               else (plhs s)(0 \<mapsto> doubleMat2Matlab E TT1))\<rparr>"
      by blast
    show ?thesis unfolding run Done(7) prod.case result.case by (rule ex)
  next
    case (Abort0 msg)
    with run readInput_frame [OF Abort0(1)] show ?thesis by simp
  next
    case (Abort1 TDB1 s1 msg)
    with run readInput_frame [OF Abort1(1)] readInput_frame [OF Abort1(2)]
    show ?thesis by simp
  next
    case (Abort2 TDB1 s1 TDB2 s2 msg)
    with run readInput_frame [OF Abort2(1)] readInput_frame [OF Abort2(2)]
      deltaTArgument_frame [OF Abort2(3)]
    show ?thesis by simp
  next
    case (Abort3 TDB1 s1 TDB2 s2 iterateDeltaT d0 s3 msg)
    with run readInput_frame [OF Abort3(1)] readInput_frame [OF Abort3(2)]
      deltaTArgument_frame [OF Abort3(3)] clockLocation_plhs [OF Abort3(4)]
    show ?thesis by simp
  next
    case (AbortLoop1 TDB1 s1 TDB2 s2 iterateDeltaT d0 s3 u v elon s4 msg)
    with run readInput_frame [OF AbortLoop1(1)] readInput_frame [OF AbortLoop1(2)]
      deltaTArgument_frame [OF AbortLoop1(3)] clockLocation_plhs [OF AbortLoop1(4)]
      loopBody_frame [OF AbortLoop1(5)]
    show ?thesis by simp
  next
    case (AbortLoop2 TDB1 s1 TDB2 s2 iterateDeltaT d0 s3 u v elon s4 vars1 s5 msg)
    with run readInput_frame [OF AbortLoop2(1)] readInput_frame [OF AbortLoop2(2)]
      deltaTArgument_frame [OF AbortLoop2(3)] clockLocation_plhs [OF AbortLoop2(4)]
      loopBody_frame [OF AbortLoop2(5)] loopBody_frame [OF AbortLoop2(6)]
    show ?thesis by simp
  qed
qed

theorem outputs_only_after_both_iterations_witness:
  "fst (mexFunction stubEnv 2 [0, 1] (workspace [scalar (- 1), scalar 0]))
     = Abort ''Unacceptable date entered''
   \<and> plhs (snd (mexFunction stubEnv 2 [0, 1] (workspace [scalar (- 1), scalar 0]))) = Map.empty
   \<and> fst (mexFunction stubEnv 1 [0, 1, 2] (workspace [scalar 2451545, scalar (3/4), scalar 0]))
     = Done ()
   \<and> plhs (snd (mexFunction stubEnv 1 [0, 1, 2]
        (workspace [scalar 2451545, scalar (3/4), scalar 0])))
     = [0 \<mapsto> scalar 2451545]"
proof -
  have run: "mexFunction stubEnv 2 [0, 1] (workspace [scalar (- 1), scalar 0]) =
      (Abort ''Unacceptable date entered'',
       (workspace [scalar (- 1), scalar 0])\<lparr>trace := [ReadInput 0, ReadInput 1,
          Call ''iauTttai'' [- 1, 0], Call ''iauTaiutc'' [- 1, 0]]\<rparr>)"
    by (simp add: loop_defs run_defs stub_defs)
  have returns: "fst (mexFunction stubEnv 1 [0, 1, 2]
        (workspace [scalar 2451545, scalar (3/4), scalar 0])) = Done ()
    \<and> plhs (snd (mexFunction stubEnv 1 [0, 1, 2]
        (workspace [scalar 2451545, scalar (3/4), scalar 0])))
     = [0 \<mapsto> scalar 2451545]"
    by (simp add: loop_defs run_defs stub_defs)
  from outputs_only_after_both_iterations [where E = stubEnv and nlhs = 2 and prhs = "[0, 1]"
      and s = "workspace [scalar (- 1), scalar 0]"] returns
  show ?thesis
    unfolding run by (simp add: workspace_def)
qed

subsection \<open>C5: the cylindrical coordinates of the clock\<close>

text \<open>
  C5. When a clock location is supplied as a 3 by 1 real double array with the elements
  \<open>x\<close>, \<open>y\<close>, \<open>z\<close> in metres, the coordinates handed to the loop are computed from the
  components divided by 1000: the radius is the square root of the sum of the squares of
  the first two, the height is the third, the longitude is \<open>atan2\<close> of the second and the
  first; so the radius is \<open>sqrt (x\<^sup>2 + y\<^sup>2) / 1000\<close> and the longitude \<open>atan2 y x\<close>.
  When the clock location is absent or empty, radius, height and longitude are all 0 and
  nothing else happens.
\<close>

theorem clockLocation_cylindrical:
  "(3 < length prhs \<and> mxM (store s (prhs ! 3)) = 3 \<and> mxN (store s (prhs ! 3)) = 1
      \<and> checkRealDoubleArray E (store s (prhs ! 3)) = None
      \<and> mxData (store s (prhs ! 3)) = [x, y, z]
    \<longrightarrow> fst (clockLocation E prhs s) =
          Done (sqrt ((x / 1000)\<^sup>2 + (y / 1000)\<^sup>2), z / 1000, atan2 (y / 1000) (x / 1000))
      \<and> sqrt ((x / 1000)\<^sup>2 + (y / 1000)\<^sup>2) = sqrt (x\<^sup>2 + y\<^sup>2) / 1000
      \<and> atan2 (y / 1000) (x / 1000) = atan2 y x)
   \<and> (length prhs \<le> 3 \<or> mxIsEmpty (store s (prhs ! 3))
    \<longrightarrow> clockLocation E prhs s = (Done (0, 0, 0), s))"
proof (intro conjI impI)
  assume a: "3 < length prhs \<and> mxM (store s (prhs ! 3)) = 3 \<and> mxN (store s (prhs ! 3)) = 1
      \<and> checkRealDoubleArray E (store s (prhs ! 3)) = None
      \<and> mxData (store s (prhs ! 3)) = [x, y, z]"
  then show "fst (clockLocation E prhs s) =
      Done (sqrt ((x / 1000)\<^sup>2 + (y / 1000)\<^sup>2), z / 1000, atan2 (y / 1000) (x / 1000))"
    using clockLocation_supplied [of prhs s E x y z] by (simp add: power2_eq_square)
  show "sqrt ((x / 1000)\<^sup>2 + (y / 1000)\<^sup>2) = sqrt (x\<^sup>2 + y\<^sup>2) / 1000"
    by (rule sqrt_scale)
  show "atan2 (y / 1000) (x / 1000) = atan2 y x"
    by (rule atan2_scale) simp
next
  assume "length prhs \<le> 3 \<or> mxIsEmpty (store s (prhs ! 3))"
  then show "clockLocation E prhs s = (Done (0, 0, 0), s)"
    by (auto simp: clockLocation_def mex_return_def)
qed

theorem clockLocation_cylindrical_witness:
  "fst (clockLocation stubEnv [0, 1, 2, 3]
          (workspace [scalar 2451545, scalar (3/4), scalar 0, columnVector [3000, 4000, 5000]]))
     = Done (5, 5, arctan (4/3))
   \<and> clockLocation stubEnv [0, 1, 2]
          (workspace [scalar 2451545, scalar (3/4), scalar 0])
     = (Done (0, 0, 0), workspace [scalar 2451545, scalar (3/4), scalar 0])"
  using clockLocation_cylindrical [of "[0, 1, 2, 3]"
      "workspace [scalar 2451545, scalar (3/4), scalar 0, columnVector [3000, 4000, 5000]]"
      stubEnv 3000 4000 5000]
    clockLocation_cylindrical [of "[0, 1, 2]"
      "workspace [scalar 2451545, scalar (3/4), scalar 0]" stubEnv 0 0 0]
  by (simp add: stub_defs atan2_def sqrt_25)

text \<open>
  In a whole call these are the values that reach \<^verbatim>\<open>iauDtdb\<close>, in the order longitude,
  radius, height.
\<close>

lemma clock_coordinates_reach_iauDtdb:
  "mexFunction stubEnv 2 [0, 1, 2, 3]
      (workspace [scalar 2451545, scalar (3/4), scalar 0, columnVector [3000, 4000, 5000]])
   = (Abort ''An error occured during an intermediate conversion to TDB.\<newline>'',
      \<lparr>store = (store (workspace [scalar 2451545, scalar (3/4), scalar 0,
                 columnVector [3000, 4000, 5000]]))(3 := columnVector [3, 4, 5]),
       plhs = Map.empty,
       trace = [ReadInput 0, ReadInput 1, ReadInput 2, ReadInput 3,
         Call ''iauTtut1'' [2451545, 3/4, 0],
         Call ''iauDtdb'' [2451545, 3/4, 3/4, arctan (4/3), 5, 5],
         Call ''iauTdbtt'' [2451545, 3/4, 3/4000 + 5]]\<rparr>)"
  by (simp add: loop_defs run_defs stub_defs divideElement_def atan2_def sqrt_25 fun_eq_iff)

subsection \<open>C6: the fraction of a day\<close>

text \<open>
  C6. For every pair of UT1 Julian date components, the value computed at lines 145 and
  146 (the sum of the two fractional parts, minus its floor) is the fractional part of the
  full date \<open>Jul1UT1 + Jul2UT1\<close> and lies in the interval from 0 (included) to 1
  (excluded), in exact arithmetic.
\<close>

theorem ut1Fraction_is_frac:
  "ut1Fraction Jul1UT1 Jul2UT1 = frac (Jul1UT1 + Jul2UT1)
   \<and> 0 \<le> ut1Fraction Jul1UT1 Jul2UT1 \<and> ut1Fraction Jul1UT1 Jul2UT1 < 1"
  using frac_ge_0 [of "Jul1UT1 + Jul2UT1"] frac_lt_1 [of "Jul1UT1 + Jul2UT1"]
  by (simp add: ut1Fraction_frac)

subsection \<open>C7: the Earth-orientation lookup\<close>

text \<open>
  C7. \<^verbatim>\<open>getDeltaTFromEOP\<close>, given a TT split date, converts it to TAI with \<^verbatim>\<open>iauTttai\<close>
  and the result to UTC with \<^verbatim>\<open>iauTaiutc\<close>, calls \<^verbatim>\<open>getEOP\<close> with that UTC date and
  returns the fourth value it gives, TT-UT1 in seconds, as \<^verbatim>\<open>getDoubleFromMatlab\<close>
  reads it and with no check of its own. Status -1 of \<^verbatim>\<open>iauTaiutc\<close>, an unacceptable
  date, is fatal; status 1, a dubious year, only emits a warning and the lookup goes on.
  (A nonzero status of \<^verbatim>\<open>iauTttai\<close>, -1 included, is fatal as well.)
\<close>

theorem getDeltaTFromEOP_outcomes:
  assumes "iauTttai E TT1 TT2 = (j1, TAI0, TAI1)"
      and "iauTaiutc E TAI0 TAI1 = (j2, UTC0, UTC1)"
  shows "(j1 \<noteq> 0 \<longrightarrow> getDeltaTFromEOP E TT1 TT2 s =
            (Abort ''An error occurred computing TAI.'',
             s\<lparr>trace := trace s @ [Call ''iauTttai'' [TT1, TT2]]\<rparr>))
       \<and> (j1 = 0 \<and> j2 = - 1 \<longrightarrow> getDeltaTFromEOP E TT1 TT2 s =
            (Abort ''Unacceptable date entered'',
             s\<lparr>trace := trace s @ [Call ''iauTttai'' [TT1, TT2], Call ''iauTaiutc'' [TAI0, TAI1]]\<rparr>))
       \<and> (j1 = 0 \<and> j2 \<noteq> - 1 \<longrightarrow> getDeltaTFromEOP E TT1 TT2 s =
            (case getEOP E (doubleMat2Matlab E UTC0) (doubleMat2Matlab E UTC1) of
               Inl msg \<Rightarrow> Abort msg
             | Inr (r0, r1, r2, r3) \<Rightarrow>
                 (case getDoubleFromMatlab E r3 of Inl msg \<Rightarrow> Abort msg | Inr x \<Rightarrow> Done x),
             s\<lparr>trace := trace s @ [Call ''iauTttai'' [TT1, TT2], Call ''iauTaiutc'' [TAI0, TAI1]]
                  @ (if j2 = 1 then [Warning ''Dubious Date entered.''] else [])
                  @ [Call ''getEOP'' [UTC0, UTC1]]\<rparr>))"
  using assms
  by (auto simp: getDeltaTFromEOP_def mex_bind_def extern_def emit_def mexErrMsgTxt_def
      mex_return_def mexWarnMsgTxt_def mexCallMATLAB_getEOP_def getDouble_def
      split: sum.splits prod.splits)

theorem getDeltaTFromEOP_outcomes_witness:
  "getDeltaTFromEOP stubEnv 3000001 0 (workspace []) =
     (Done 69, (workspace [])\<lparr>trace := [Call ''iauTttai'' [3000001, 0],
        Call ''iauTaiutc'' [3000001, 0], Warning ''Dubious Date entered.'',
        Call ''getEOP'' [3000001, 0]]\<rparr>)
   \<and> getDeltaTFromEOP stubEnv (- 1) 0 (workspace []) =
     (Abort ''Unacceptable date entered'', (workspace [])\<lparr>trace := [Call ''iauTttai'' [- 1, 0],
        Call ''iauTaiutc'' [- 1, 0]]\<rparr>)"
  using getDeltaTFromEOP_outcomes [of stubEnv 3000001 0 0 3000001 0 1 3000001 0 "workspace []"]
    getDeltaTFromEOP_outcomes [of stubEnv "- 1" 0 0 "- 1" 0 "- 1" "- 1" 0 "workspace []"]
  by (simp add: stubEnv_def stubStatus_def scalar_def workspace_def)

subsection \<open>C9: the argument counts are checked first\<close>

text \<open>
  C9. A call with fewer than 2 or more than 4 input arguments, or with more than 2
  requested outputs, aborts with a usage error, and the state is exactly as it was: no
  input value has been read, no external routine called, no warning printed, no output
  assigned, no array changed.
\<close>

theorem usage_error_first:
  assumes "length prhs < 2 \<or> 4 < length prhs \<or> 2 < nlhs"
  shows "mexFunction E nlhs prhs s =
     (Abort (if length prhs < 2 \<or> 4 < length prhs then ''Wrong number of inputs.''
             else ''Wrong number of outputs.''), s)"
  using assms by (rule mexFunction_usage)

theorem usage_error_first_witness:
  "mexFunction stubEnv 3 [0, 1, 2, 3]
      (workspace [scalar 2451545, scalar (3/4), scalar 69, columnVector [3000, 4000, 5000]])
    = (Abort ''Wrong number of outputs.'',
       workspace [scalar 2451545, scalar (3/4), scalar 69, columnVector [3000, 4000, 5000]])
   \<and> mexFunction stubEnv 1 [0] (workspace [scalar 2451545])
    = (Abort ''Wrong number of inputs.'', workspace [scalar 2451545])"
  using usage_error_first [of "[0, 1, 2, 3]" 3 stubEnv
      "workspace [scalar 2451545, scalar (3/4), scalar 69, columnVector [3000, 4000, 5000]]"]
    usage_error_first [of "[0]" 1 stubEnv "workspace [scalar 2451545]"]
  by simp

subsection \<open>C10: the clock location is scaled in the caller's array\<close>

text \<open>
  C10, as stated: whenever a \<open>clockLocation\<close> argument is supplied, after the call each of
  its three components is the original divided by 1000, and the argument is not left
  unchanged. The division at line 112 sits behind the checks of lines 75 to 108, and a
  call that one of them refuses leaves the array as it was. Below, a clock location that
  holds 3000, 4000, 5000 still holds these values (not 3, 4, 5) after a call with three
  outputs requested, after a call that passes it as a row, and after a call whose first
  argument is not a scalar. And a clock location of three zeros goes through the division
  and is left unchanged.
\<close>

theorem clockLocation_untouched_by_refused_call:
  "fst (mexFunction stubEnv 3 [0, 1, 2, 3]
      (workspace [scalar 2451545, scalar (3/4), scalar 0, columnVector [3000, 4000, 5000]]))
     = Abort ''Wrong number of outputs.''
   \<and> mxData (store (snd (mexFunction stubEnv 3 [0, 1, 2, 3]
      (workspace [scalar 2451545, scalar (3/4), scalar 0, columnVector [3000, 4000, 5000]]))) 3)
     = [3000, 4000, 5000]
   \<and> fst (mexFunction stubEnv 2 [0, 1, 2, 3]
      (workspace [scalar 2451545, scalar (3/4), scalar 0, rowVector [3000, 4000, 5000]]))
     = Abort ''The dimensionality of the clock location is incorrect.''
   \<and> mxData (store (snd (mexFunction stubEnv 2 [0, 1, 2, 3]
      (workspace [scalar 2451545, scalar (3/4), scalar 0, rowVector [3000, 4000, 5000]]))) 3)
     = [3000, 4000, 5000]
   \<and> fst (mexFunction stubEnv 2 [0, 1, 2, 3]
      (workspace [emptyArray, scalar (3/4), scalar 0, columnVector [3000, 4000, 5000]]))
     = Abort ''A parameter that should be scalar is not.''
   \<and> mxData (store (snd (mexFunction stubEnv 2 [0, 1, 2, 3]
      (workspace [emptyArray, scalar (3/4), scalar 0, columnVector [3000, 4000, 5000]]))) 3)
     = [3000, 4000, 5000]
   \<and> fst (mexFunction stubEnv 2 [0, 1, 2, 3]
      (workspace [scalar 2451545, scalar (3/4), scalar 0, columnVector [0, 0, 0]]))
     = Done ()
   \<and> store (snd (mexFunction stubEnv 2 [0, 1, 2, 3]
      (workspace [scalar 2451545, scalar (3/4), scalar 0, columnVector [0, 0, 0]])))
     = store (workspace [scalar 2451545, scalar (3/4), scalar 0, columnVector [0, 0, 0]])"
  by (simp add: loop_defs run_defs stub_defs divideElement_def atan2_def fun_eq_iff)

text \<open>
  C10, amended. When the call has four inputs and at most two outputs, the first two
  arguments are read without error, the third is empty or read without error, and the
  fourth is a 3 by 1 real double array, the call changes the caller's array in place:
  after the call, whether it returns or aborts with a fatal error inside the loop, each
  of the three components of that array is its original value divided by 1000, and the
  rest of the workspace is as it was. (Whether the array then differs from the original
  depends on its values: three zeros are left as they were.)
\<close>

theorem clockLocation_scaled_in_place:
  assumes "length prhs = 4" "nlhs \<le> 2"
      and "getDoubleFromMatlab E (store s (prhs ! 0)) = Inr t1"
      and "getDoubleFromMatlab E (store s (prhs ! 1)) = Inr t2"
      and "mxIsEmpty (store s (prhs ! 2)) \<or> getDoubleFromMatlab E (store s (prhs ! 2)) = Inr d"
      and "mxM (store s (prhs ! 3)) = 3" "mxN (store s (prhs ! 3)) = 1"
      and "checkRealDoubleArray E (store s (prhs ! 3)) = None"
      and "length (mxData (store s (prhs ! 3))) = 3"
  shows "store (snd (mexFunction E nlhs prhs s)) =
     (store s)(prhs ! 3 := (store s (prhs ! 3))
        \<lparr>mxData := map (\<lambda>c. c / 1000) (mxData (store s (prhs ! 3)))\<rparr>)"
proof -
  let ?scaled = "(store s)(prhs ! 3 := (store s (prhs ! 3))
        \<lparr>mxData := map (\<lambda>c. c / 1000) (mxData (store s (prhs ! 3)))\<rparr>)"
  have valid: "\<not> (length prhs < 2 \<or> 4 < length prhs)" "\<not> 2 < nlhs"
    using assms(1,2) by auto
  obtain x y z where xyz: "mxData (store s (prhs ! 3)) = [x, y, z]"
    using assms(9) by (auto simp: length_Suc_conv numeral_3_eq_3)
  obtain r s' where run: "mexFunction E nlhs prhs s = (r, s')"
    by (cases "mexFunction E nlhs prhs s")
  have clock: "store s4 = ?scaled"
    if "readInput E prhs 0 s = (Done TDB1, s1)" "readInput E prhs 1 s1 = (Done TDB2, s2)"
      "deltaTArgument E prhs s2 = (Done p, s3)" "clockLocation E prhs s3 = (q, s4)"
    for TDB1 s1 TDB2 s2 p s3 q s4
  proof -
    have s3: "store s3 = store s"
      using readInput_frame [OF that(1)] readInput_frame [OF that(2)]
        deltaTArgument_frame [OF that(3)] by simp
    from clockLocation_supplied [of prhs s3 E x y z] assms(1,6,7,8) xyz s3
    have "store (snd (clockLocation E prhs s3)) = ?scaled" by (simp add: xyz)
    with that(4) show ?thesis by simp
  qed
  have clock_ok: "\<exists>q. clockLocation E prhs s3 = (Done q, s4)"
    if "readInput E prhs 0 s = (Done TDB1, s1)" "readInput E prhs 1 s1 = (Done TDB2, s2)"
      "deltaTArgument E prhs s2 = (Done p, s3)" "clockLocation E prhs s3 = (q', s4)"
    for TDB1 s1 TDB2 s2 p s3 q' s4
  proof -
    have s3: "store s3 = store s"
      using readInput_frame [OF that(1)] readInput_frame [OF that(2)]
        deltaTArgument_frame [OF that(3)] by simp
    from clockLocation_supplied [of prhs s3 E x y z] assms(1,6,7,8) xyz s3
    obtain Q S where "clockLocation E prhs s3 = (Done Q, S)" by simp
    with that(4) show ?thesis by (cases Q) auto
  qed
  from valid run have "store s' = ?scaled"
  proof (cases rule: mexFunction_runs)
    case (Abort0 msg)
    with readInput_readable [OF assms(3)] show ?thesis by simp
  next
    case (Abort1 TDB1 s1 msg)
    with readInput_frame [OF Abort1(1)] readInput_readable [of E s1 prhs 1 t2] assms(4)
    show ?thesis by simp
  next
    case (Abort2 TDB1 s1 TDB2 s2 msg)
    with readInput_frame [OF Abort2(1)] readInput_frame [OF Abort2(2)]
      deltaTArgument_readable [of s2 prhs E d] assms(5)
    show ?thesis by simp
  next
    case (Abort3 TDB1 s1 TDB2 s2 iterateDeltaT d0 s3 msg)
    with clock_ok [OF Abort3(1,2,3,4)] show ?thesis by simp
  next
    case (AbortLoop1 TDB1 s1 TDB2 s2 iterateDeltaT d0 s3 u v elon s4 msg)
    with clock [OF AbortLoop1(1,2,3,4)] loopBody_frame [OF AbortLoop1(5)] show ?thesis by simp
  next
    case (AbortLoop2 TDB1 s1 TDB2 s2 iterateDeltaT d0 s3 u v elon s4 vars1 s5 msg)
    with clock [OF AbortLoop2(1,2,3,4)] loopBody_frame [OF AbortLoop2(5)]
      loopBody_frame [OF AbortLoop2(6)] show ?thesis by simp
  next
    case (Done TDB1 s1 TDB2 s2 iterateDeltaT d0 s3 u v elon s4 vars1 s5 TT1 TT2 d s6)
    with clock [OF Done(1,2,3,4)] loopBody_frame [OF Done(5)]
      loopBody_frame [OF Done(6)] show ?thesis by simp
  qed
  with run show ?thesis by simp
qed

theorem clockLocation_scaled_in_place_witness:
  "fst (mexFunction stubEnv 2 [0, 1, 2, 3]
      (workspace [scalar 2451545, scalar (3/4), scalar 0, columnVector [3000, 4000, 5000]]))
     = Abort ''An error occured during an intermediate conversion to TDB.\<newline>''
   \<and> store (snd (mexFunction stubEnv 2 [0, 1, 2, 3]
      (workspace [scalar 2451545, scalar (3/4), scalar 0, columnVector [3000, 4000, 5000]]))) 3
     = columnVector [3, 4, 5]"
proof -
  have "fst (mexFunction stubEnv 2 [0, 1, 2, 3]
      (workspace [scalar 2451545, scalar (3/4), scalar 0, columnVector [3000, 4000, 5000]]))
     = Abort ''An error occured during an intermediate conversion to TDB.\<newline>''"
    by (simp add: loop_defs run_defs stub_defs divideElement_def)
  then show ?thesis
    using clockLocation_scaled_in_place [where E = stubEnv and nlhs = 2 and prhs = "[0, 1, 2, 3]"
      and s = "workspace [scalar 2451545, scalar (3/4), scalar 0, columnVector [3000, 4000, 5000]]"
      and ?t1.0 = 2451545 and ?t2.0 = "3/4" and d = 0]
    by (simp add: stub_defs)
qed

end
